theory Spec2Isabelle
  imports Complex_Main "HOL-Library.Log_Nat"
begin

section \<open>The yield calculator of \<^verbatim>\<open>src/streamlit.py\<close>\<close>

text \<open>
  The only function of the repository that computes anything is \<^verbatim>\<open>calculate_yield\<close>
  (lines 5 to 37); the rest of the file draws its result. The function takes three
  numbers and returns a dictionary with ten keys.

  The function is embedded twice, line by line both times. The first embedding takes
  numbers as \<^typ>\<open>real\<close>: exact arithmetic, as the specification states its formulas
  ("for every real input", "exact equalities in exact arithmetic"). Python evaluates the
  same expressions on binary64 floating point numbers, where products overflow to
  infinity, \<^verbatim>\<open>inf * 0\<close> is NaN and every result is rounded. The second embedding,
  \<open>calculate_yield_f64\<close>, has the same lines over binary64 values, and the claims whose
  truth depends on overflow, NaN or rounding are settled on it.

  The one exception Python arithmetic can raise in this function is
  \<^verbatim>\<open>ZeroDivisionError\<close>, from \<^verbatim>\<open>/\<close> with a divisor equal to zero. The two divisions
  by a computed value (lines 21 and 24) go through \<open>truediv\<close>, which returns the error
  where Python raises it. The two divisions by the literals \<^verbatim>\<open>100\<close> (line 11) and
  \<^verbatim>\<open>12\<close> (line 23) cannot raise and are written with the division of the reals.
\<close>

datatype error = ZeroDivisionError

definition truediv :: "real \<Rightarrow> real \<Rightarrow> error + real" where
  "truediv a b = (if b = 0 then Inl ZeroDivisionError else Inr (a / b))"

subsection \<open>The assignments of lines 7 to 19\<close>

text \<open>
  Each local variable assigned before the first guarded division is a definition named
  after the variable, a function of the parameters its right-hand side depends on.
\<close>

definition fee_tier :: real where
  "fee_tier = 0.006"

definition our_total_position_percent :: real where
  "our_total_position_percent = 0.68"

definition our_total_position :: "real \<Rightarrow> real" where
  "our_total_position total_pool_size = total_pool_size * our_total_position_percent"

definition our_in_range_position :: "real \<Rightarrow> real \<Rightarrow> real" where
  "our_in_range_position total_pool_size percent_in_range =
     our_total_position total_pool_size * (percent_in_range / 100)"

definition others_position :: "real \<Rightarrow> real" where
  "others_position total_pool_size = total_pool_size * (1 - our_total_position_percent)"

definition total_in_range :: "real \<Rightarrow> real \<Rightarrow> real" where
  "total_in_range total_pool_size percent_in_range =
     others_position total_pool_size + our_in_range_position total_pool_size percent_in_range"

definition daily_fees :: "real \<Rightarrow> real" where
  "daily_fees daily_volume = daily_volume * fee_tier"

definition annual_fees :: "real \<Rightarrow> real" where
  "annual_fees daily_volume = daily_fees daily_volume * 365"

subsection \<open>The guarded divisions and the returned dictionary, lines 21 to 37\<close>

text \<open>
  A conditional expression \<^verbatim>\<open>a / b if c else 0\<close> evaluates the division only when
  \<^verbatim>\<open>c\<close> holds. The dictionary literal is an association list in the order of the
  source; \<^term>\<open>map_of\<close> reads a key, and \<^term>\<open>None\<close> is a key the dictionary does
  not have.
\<close>

definition calculate_yield :: "real \<Rightarrow> real \<Rightarrow> real \<Rightarrow> error + (string \<times> real) list" where
  "calculate_yield total_pool_size daily_volume percent_in_range =
     (case (if total_in_range total_pool_size percent_in_range > 0
            then truediv (our_in_range_position total_pool_size percent_in_range)
                         (total_in_range total_pool_size percent_in_range)
            else Inr 0) of
        Inl e \<Rightarrow> Inl e
      | Inr our_share \<Rightarrow>
          (let our_annual_yield = annual_fees daily_volume * our_share;
               our_monthly_yield = our_annual_yield / 12
           in case (if our_in_range_position total_pool_size percent_in_range > 0
                    then (case truediv our_annual_yield
                                 (our_in_range_position total_pool_size percent_in_range) of
                            Inl e \<Rightarrow> Inl e
                          | Inr q \<Rightarrow> Inr (q * 100))
                    else Inr 0) of
                Inl e \<Rightarrow> Inl e
              | Inr our_apr \<Rightarrow>
                  Inr [(''our_total_position'', our_total_position total_pool_size),
                       (''our_in_range_position'',
                          our_in_range_position total_pool_size percent_in_range),
                       (''our_out_of_range_position'',
                          our_total_position total_pool_size
                            - our_in_range_position total_pool_size percent_in_range),
                       (''total_in_range'', total_in_range total_pool_size percent_in_range),
                       (''daily_fees'', daily_fees daily_volume),
                       (''annual_fees'', annual_fees daily_volume),
                       (''our_share'', our_share * 100),
                       (''our_annual_yield'', our_annual_yield),
                       (''our_monthly_yield'', our_monthly_yield),
                       (''our_apr'', our_apr)]))"

text \<open>
  Reading one key of the result of a call: \<^term>\<open>None\<close> when the call raised or the
  dictionary has no such key.
\<close>

definition returned :: "error + (string \<times> real) list \<Rightarrow> string \<Rightarrow> real option" where
  "returned r k = (case r of Inl e \<Rightarrow> None | Inr d \<Rightarrow> map_of d k)"

section \<open>The same function on binary64 numbers\<close>

subsection \<open>Binary64 values and rounding\<close>

text \<open>
  A Python float is a finite binary64 number, an infinity or NaN. A finite number is
  kept as the real it denotes; the two zeros are one value, since they compare equal
  and no operation of the function tells them apart (Python's \<^verbatim>\<open>/\<close> raises on both).

  \<open>rnd\<close> is the rounding of an exact result to binary64, round to nearest, ties to
  even: a number of binary exponent \<open>k\<close> is a multiple of \<open>2 powi (k - 52)\<close>, and of
  \<open>2 powi (- 1074)\<close> in the subnormal range; a rounded magnitude of \<open>2 ^ 1024\<close> or more
  is an infinity. \<open>ilog2\<close> is the binary exponent, computed on integers by
  \<^const>\<open>bitlen\<close>. A decimal literal of the source is the rounding of its decimal
  value, and an integer operand below \<open>2 ^ 53\<close> is converted exactly.
\<close>

datatype f64 = Finite real | PInf | NInf | NaN

definition round_half_even :: "real \<Rightarrow> int" where
  "round_half_even x =
     (let f = \<lfloor>x\<rfloor>; d = x - of_int f
      in if d < 1 / 2 then f else if 1 / 2 < d then f + 1 else if even f then f else f + 1)"

definition ilog2 :: "real \<Rightarrow> int" where
  "ilog2 x = (if 1 \<le> x then bitlen \<lfloor>x\<rfloor> - 1 else - bitlen (\<lceil>1 / x\<rceil> - 1))"

definition quantum_exp :: "real \<Rightarrow> int" where
  "quantum_exp x = max (ilog2 \<bar>x\<bar> - 52) (- 1074)"

definition quantum :: "real \<Rightarrow> real" where
  "quantum x = 2 powi (quantum_exp x)"

definition round_val :: "real \<Rightarrow> real" where
  "round_val x = (if x = 0 then 0 else quantum x * of_int (round_half_even (x / quantum x)))"

definition rnd :: "real \<Rightarrow> f64" where
  "rnd x = (let y = round_val x
            in if 2 ^ 1024 \<le> \<bar>y\<bar> then (if 0 < x then PInf else NInf) else Finite y)"

subsection \<open>Arithmetic and comparison of Python floats\<close>

text \<open>
  Multiplication, addition and subtraction follow IEEE 754: NaN propagates,
  \<^verbatim>\<open>inf * 0\<close> and \<^verbatim>\<open>inf - inf\<close> are NaN, and a finite result is the rounding of
  the exact one. \<open>div_f64\<close> is the quotient for a divisor that is not zero;
  \<open>truediv_f64\<close> is Python's \<^verbatim>\<open>/\<close>, which raises \<^verbatim>\<open>ZeroDivisionError\<close> on a zero
  divisor before anything else. The function divides by the literals 100 and 12 and,
  behind its guards, by a positive number, so \<open>div_f64\<close> is never applied to a zero
  divisor. A comparison with NaN is false.
\<close>

fun sign_f64 :: "f64 \<Rightarrow> real" where
  "sign_f64 (Finite x) = sgn x"
| "sign_f64 PInf = 1"
| "sign_f64 NInf = - 1"
| "sign_f64 NaN = 0"

definition inf_of_sign :: "real \<Rightarrow> f64" where
  "inf_of_sign s = (if 0 < s then PInf else if s < 0 then NInf else NaN)"

fun mul_f64 :: "f64 \<Rightarrow> f64 \<Rightarrow> f64" where
  "mul_f64 NaN b = NaN"
| "mul_f64 a NaN = NaN"
| "mul_f64 (Finite x) (Finite y) = rnd (x * y)"
| "mul_f64 a b = inf_of_sign (sign_f64 a * sign_f64 b)"

fun add_f64 :: "f64 \<Rightarrow> f64 \<Rightarrow> f64" where
  "add_f64 NaN b = NaN"
| "add_f64 a NaN = NaN"
| "add_f64 (Finite x) (Finite y) = rnd (x + y)"
| "add_f64 PInf NInf = NaN"
| "add_f64 NInf PInf = NaN"
| "add_f64 PInf b = PInf"
| "add_f64 a PInf = PInf"
| "add_f64 NInf b = NInf"
| "add_f64 a NInf = NInf"

fun neg_f64 :: "f64 \<Rightarrow> f64" where
  "neg_f64 (Finite x) = Finite (- x)"
| "neg_f64 PInf = NInf"
| "neg_f64 NInf = PInf"
| "neg_f64 NaN = NaN"

definition sub_f64 :: "f64 \<Rightarrow> f64 \<Rightarrow> f64" where
  "sub_f64 a b = add_f64 a (neg_f64 b)"

fun div_f64 :: "f64 \<Rightarrow> f64 \<Rightarrow> f64" where
  "div_f64 NaN b = NaN"
| "div_f64 a NaN = NaN"
| "div_f64 (Finite x) (Finite y) = rnd (x / y)"
| "div_f64 (Finite x) b = Finite 0"
| "div_f64 a (Finite y) = inf_of_sign (sign_f64 a * sgn y)"
| "div_f64 a b = NaN"

definition truediv_f64 :: "f64 \<Rightarrow> f64 \<Rightarrow> error + f64" where
  "truediv_f64 a b = (if b = Finite 0 then Inl ZeroDivisionError else Inr (div_f64 a b))"

fun less_f64 :: "f64 \<Rightarrow> f64 \<Rightarrow> bool" where
  "less_f64 (Finite x) (Finite y) = (x < y)"
| "less_f64 NInf (Finite y) = True"
| "less_f64 NInf PInf = True"
| "less_f64 (Finite x) PInf = True"
| "less_f64 a b = False"

fun le_f64 :: "f64 \<Rightarrow> f64 \<Rightarrow> bool" where
  "le_f64 NaN b = False"
| "le_f64 a NaN = False"
| "le_f64 (Finite x) (Finite y) = (x \<le> y)"
| "le_f64 NInf b = True"
| "le_f64 a PInf = True"
| "le_f64 a b = False"

text \<open>
  The reals that are binary64 numbers are those that round to themselves below
  \<open>2 ^ 1024\<close>; a finite float carries one of them.
\<close>

definition is_double :: "real \<Rightarrow> bool" where
  "is_double x = (round_val x = x \<and> \<bar>x\<bar> < 2 ^ 1024)"

fun finite_f64 :: "f64 \<Rightarrow> bool" where
  "finite_f64 (Finite x) = is_double x"
| "finite_f64 a = False"

subsection \<open>Lines 7 to 37 on floats\<close>

text \<open>
  The definitions of the first part again, each operation replaced by the float one.
  \<open>our_share_f64\<close> is the conditional expression of line 21.
\<close>

definition fee_tier_f64 :: f64 where
  "fee_tier_f64 = rnd 0.006"

definition our_total_position_percent_f64 :: f64 where
  "our_total_position_percent_f64 = rnd 0.68"

definition our_total_position_f64 :: "f64 \<Rightarrow> f64" where
  "our_total_position_f64 total_pool_size =
     mul_f64 total_pool_size our_total_position_percent_f64"

definition our_in_range_position_f64 :: "f64 \<Rightarrow> f64 \<Rightarrow> f64" where
  "our_in_range_position_f64 total_pool_size percent_in_range =
     mul_f64 (our_total_position_f64 total_pool_size) (div_f64 percent_in_range (Finite 100))"

definition others_position_f64 :: "f64 \<Rightarrow> f64" where
  "others_position_f64 total_pool_size =
     mul_f64 total_pool_size (sub_f64 (Finite 1) our_total_position_percent_f64)"

definition total_in_range_f64 :: "f64 \<Rightarrow> f64 \<Rightarrow> f64" where
  "total_in_range_f64 total_pool_size percent_in_range =
     add_f64 (others_position_f64 total_pool_size)
             (our_in_range_position_f64 total_pool_size percent_in_range)"

definition daily_fees_f64 :: "f64 \<Rightarrow> f64" where
  "daily_fees_f64 daily_volume = mul_f64 daily_volume fee_tier_f64"

definition annual_fees_f64 :: "f64 \<Rightarrow> f64" where
  "annual_fees_f64 daily_volume = mul_f64 (daily_fees_f64 daily_volume) (Finite 365)"

definition our_share_f64 :: "f64 \<Rightarrow> f64 \<Rightarrow> error + f64" where
  "our_share_f64 total_pool_size percent_in_range =
     (if less_f64 (Finite 0) (total_in_range_f64 total_pool_size percent_in_range)
      then truediv_f64 (our_in_range_position_f64 total_pool_size percent_in_range)
                       (total_in_range_f64 total_pool_size percent_in_range)
      else Inr (Finite 0))"

definition calculate_yield_f64 :: "f64 \<Rightarrow> f64 \<Rightarrow> f64 \<Rightarrow> error + (string \<times> f64) list" where
  "calculate_yield_f64 total_pool_size daily_volume percent_in_range =
     (case our_share_f64 total_pool_size percent_in_range of
        Inl e \<Rightarrow> Inl e
      | Inr our_share \<Rightarrow>
          (let our_annual_yield = mul_f64 (annual_fees_f64 daily_volume) our_share;
               our_monthly_yield = div_f64 our_annual_yield (Finite 12)
           in case (if less_f64 (Finite 0)
                         (our_in_range_position_f64 total_pool_size percent_in_range)
                    then (case truediv_f64 our_annual_yield
                                 (our_in_range_position_f64 total_pool_size percent_in_range) of
                            Inl e \<Rightarrow> Inl e
                          | Inr q \<Rightarrow> Inr (mul_f64 q (Finite 100)))
                    else Inr (Finite 0)) of
                Inl e \<Rightarrow> Inl e
              | Inr our_apr \<Rightarrow>
                  Inr [(''our_total_position'', our_total_position_f64 total_pool_size),
                       (''our_in_range_position'',
                          our_in_range_position_f64 total_pool_size percent_in_range),
                       (''our_out_of_range_position'',
                          sub_f64 (our_total_position_f64 total_pool_size)
                            (our_in_range_position_f64 total_pool_size percent_in_range)),
                       (''total_in_range'',
                          total_in_range_f64 total_pool_size percent_in_range),
                       (''daily_fees'', daily_fees_f64 daily_volume),
                       (''annual_fees'', annual_fees_f64 daily_volume),
                       (''our_share'', mul_f64 our_share (Finite 100)),
                       (''our_annual_yield'', our_annual_yield),
                       (''our_monthly_yield'', our_monthly_yield),
                       (''our_apr'', our_apr)]))"

definition returned_f64 :: "error + (string \<times> f64) list \<Rightarrow> string \<Rightarrow> f64 option" where
  "returned_f64 r k = (case r of Inl e \<Rightarrow> None | Inr d \<Rightarrow> map_of d k)"

section \<open>What a call returns\<close>

text \<open>
  The call never raises: each division is reached only behind a guard that makes its
  divisor positive. The lemma gives the returned dictionary in closed form; the two
  guarded values keep their case distinction.
\<close>

lemma calculate_yield_returns:
  "calculate_yield t v p =
     Inr [(''our_total_position'', our_total_position t),
          (''our_in_range_position'', our_in_range_position t p),
          (''our_out_of_range_position'', our_total_position t - our_in_range_position t p),
          (''total_in_range'', total_in_range t p),
          (''daily_fees'', daily_fees v),
          (''annual_fees'', annual_fees v),
          (''our_share'',
             (if total_in_range t p > 0
              then our_in_range_position t p / total_in_range t p else 0) * 100),
          (''our_annual_yield'',
             annual_fees v *
             (if total_in_range t p > 0
              then our_in_range_position t p / total_in_range t p else 0)),
          (''our_monthly_yield'',
             annual_fees v *
             (if total_in_range t p > 0
              then our_in_range_position t p / total_in_range t p else 0) / 12),
          (''our_apr'',
             (if our_in_range_position t p > 0
              then annual_fees v *
                   (if total_in_range t p > 0
                    then our_in_range_position t p / total_in_range t p else 0)
                   / our_in_range_position t p * 100
              else 0))]"
  by (simp add: calculate_yield_def truediv_def Let_def)

lemma returned_our_total_position:
  "returned (calculate_yield t v p) ''our_total_position'' = Some (our_total_position t)"
  by (simp add: returned_def calculate_yield_returns)

lemma returned_our_in_range_position:
  "returned (calculate_yield t v p) ''our_in_range_position'' = Some (our_in_range_position t p)"
  by (simp add: returned_def calculate_yield_returns)

lemma returned_our_out_of_range_position:
  "returned (calculate_yield t v p) ''our_out_of_range_position''
     = Some (our_total_position t - our_in_range_position t p)"
  by (simp add: returned_def calculate_yield_returns)

lemma returned_total_in_range:
  "returned (calculate_yield t v p) ''total_in_range'' = Some (total_in_range t p)"
  by (simp add: returned_def calculate_yield_returns)

lemma returned_daily_fees:
  "returned (calculate_yield t v p) ''daily_fees'' = Some (daily_fees v)"
  by (simp add: returned_def calculate_yield_returns)

lemma returned_annual_fees:
  "returned (calculate_yield t v p) ''annual_fees'' = Some (annual_fees v)"
  by (simp add: returned_def calculate_yield_returns)

lemma returned_our_share:
  "returned (calculate_yield t v p) ''our_share''
     = Some ((if total_in_range t p > 0
              then our_in_range_position t p / total_in_range t p else 0) * 100)"
  by (simp add: returned_def calculate_yield_returns)

lemma returned_our_annual_yield:
  "returned (calculate_yield t v p) ''our_annual_yield''
     = Some (annual_fees v *
             (if total_in_range t p > 0
              then our_in_range_position t p / total_in_range t p else 0))"
  by (simp add: returned_def calculate_yield_returns)

lemma returned_our_monthly_yield:
  "returned (calculate_yield t v p) ''our_monthly_yield''
     = Some (annual_fees v *
             (if total_in_range t p > 0
              then our_in_range_position t p / total_in_range t p else 0) / 12)"
  by (simp add: returned_def calculate_yield_returns)

lemma returned_our_apr:
  "returned (calculate_yield t v p) ''our_apr''
     = Some (if our_in_range_position t p > 0
             then annual_fees v *
                  (if total_in_range t p > 0
                   then our_in_range_position t p / total_in_range t p else 0)
                  / our_in_range_position t p * 100
             else 0)"
  by (simp add: returned_def calculate_yield_returns)

lemma returned_others_position:
  "returned (calculate_yield t v p) ''others_position'' = None"
  by (simp add: returned_def calculate_yield_returns)

text \<open>The locals of lines 10 to 19 as polynomials in the parameters.\<close>

lemma our_total_position_eq: "our_total_position t = 68 * t / 100"
  by (simp add: our_total_position_def our_total_position_percent_def)

lemma others_position_eq: "others_position t = 32 * t / 100"
  by (simp add: others_position_def our_total_position_percent_def)

lemma our_in_range_position_eq: "our_in_range_position t p = 68 * t * p / 10000"
  by (simp add: our_in_range_position_def our_total_position_eq)

lemma total_in_range_eq: "total_in_range t p = t * (3200 + 68 * p) / 10000"
  by (simp add: total_in_range_def others_position_eq our_in_range_position_eq algebra_simps)

lemma annual_fees_eq: "annual_fees v = 219 * v / 100"
  by (simp add: annual_fees_def daily_fees_def fee_tier_def)


section \<open>Properties of the rounding\<close>

text \<open>
  The binary exponent is the unique one, rounding is monotone, odd, keeps binary64
  numbers fixed and yields binary64 numbers. Everything proved below about the float
  function rests on these facts and on the evaluation of \<open>rnd\<close> at given numbers.
\<close>

lemma real_pow2_le_int:
  assumes "(2::int) ^ n \<le> m"
  shows "(2::real) ^ n \<le> real_of_int m"
proof -
  have "real_of_int (2 ^ n) \<le> real_of_int m"
    using assms by (simp only: of_int_le_iff)
  then show ?thesis by simp
qed

lemma real_int_less_pow2:
  assumes "m < (2::int) ^ n"
  shows "real_of_int m + 1 \<le> (2::real) ^ n"
proof -
  have "m + 1 \<le> 2 ^ n" using assms by simp
  then have "real_of_int (m + 1) \<le> real_of_int (2 ^ n)"
    by (simp only: of_int_le_iff)
  then show ?thesis by simp
qed

lemma pow2_neg:
  assumes "0 \<le> n"
  shows "(2::real) powi (- n) = 1 / 2 ^ nat n"
  using assms by (simp add: power_int_minus power_int_nonneg_exp inverse_eq_divide)

lemma ilog2_bounds:
  assumes "0 < x"
  shows "2 powi (ilog2 x) \<le> x" and "x < 2 powi (ilog2 x + 1)"
proof -
  have "2 powi (ilog2 x) \<le> x \<and> x < 2 powi (ilog2 x + 1)"
  proof (cases "1 \<le> x")
    case True
    define n where "n = \<lfloor>x\<rfloor>"
    have n: "0 < n" using True by (simp add: n_def)
    then have b1: "1 \<le> bitlen n" by (simp add: bitlen_alt_def)
    have il: "ilog2 x = bitlen n - 1" using True by (simp add: ilog2_def n_def)
    from bitlen_bounds [OF n]
    have lo: "(2::int) ^ nat (bitlen n - 1) \<le> n" and hi: "n < (2::int) ^ nat (bitlen n)"
      by simp_all
    have "(2::real) ^ nat (bitlen n - 1) \<le> real_of_int n"
      using lo by (rule real_pow2_le_int)
    also have "\<dots> \<le> x" by (simp add: n_def)
    finally have 1: "2 powi (bitlen n - 1) \<le> x"
      using b1 by (simp add: power_int_def)
    have "real_of_int n + 1 \<le> 2 ^ nat (bitlen n)"
      using hi by (rule real_int_less_pow2)
    moreover have "x < real_of_int n + 1" by (simp add: n_def)
    ultimately have 2: "x < 2 powi (bitlen n)"
      using b1 by (simp add: power_int_def)
    show ?thesis using 1 2 il by simp
  next
    case False
    define m where "m = \<lceil>1 / x\<rceil> - 1"
    have "1 < 1 / x" using False assms by simp
    then have "2 \<le> \<lceil>1 / x\<rceil>" by (simp add: le_ceiling_iff)
    then have m: "0 < m" by (simp add: m_def)
    then have b1: "1 \<le> bitlen m" by (simp add: bitlen_alt_def)
    have il: "ilog2 x = - bitlen m" using False by (simp add: ilog2_def m_def)
    from bitlen_bounds [OF m]
    have lo: "(2::int) ^ nat (bitlen m - 1) \<le> m" and hi: "m < (2::int) ^ nat (bitlen m)"
      by simp_all
    have "(2::real) ^ nat (bitlen m - 1) \<le> real_of_int m"
      using lo by (rule real_pow2_le_int)
    also have "real_of_int m < 1 / x"
      using ceiling_correct [of "1 / x"] by (simp add: m_def)
    finally have "x < 1 / 2 ^ nat (bitlen m - 1)"
      using assms by (simp add: field_simps)
    then have 2: "x < 2 powi (- bitlen m + 1)"
      using b1 pow2_neg [of "bitlen m - 1"] by simp
    have "1 / x \<le> real_of_int m + 1"
      using ceiling_correct [of "1 / x"] by (simp add: m_def)
    also have "\<dots> \<le> 2 ^ nat (bitlen m)"
      using hi by (rule real_int_less_pow2)
    finally have "1 / 2 ^ nat (bitlen m) \<le> x"
      using assms by (simp add: field_simps)
    then have 1: "2 powi (- bitlen m) \<le> x"
      using b1 pow2_neg [of "bitlen m"] by simp
    show ?thesis using 1 2 il by simp
  qed
  then show "2 powi (ilog2 x) \<le> x" and "x < 2 powi (ilog2 x + 1)" by simp_all
qed

lemma pow2_less_cancel:
  assumes "(2::real) powi a < 2 powi b"
  shows "a < b"
proof (rule ccontr)
  assume "\<not> a < b"
  then have "b \<le> a" by simp
  then have "(2::real) powi b \<le> 2 powi a" by (rule power_int_increasing) simp
  with assms show False by simp
qed

lemma ilog2_unique:
  assumes "2 powi k \<le> x" and "x < 2 powi (k + 1)"
  shows "ilog2 x = k"
proof -
  have pos: "0 < x"
    using assms(1) by (rule less_le_trans [rotated]) simp
  note b = ilog2_bounds [OF pos]
  have "(2::real) powi k < 2 powi (ilog2 x + 1)"
    using assms(1) b(2) by simp
  then have 1: "k < ilog2 x + 1"
    by (rule pow2_less_cancel)
  have "(2::real) powi (ilog2 x) < 2 powi (k + 1)"
    using assms(2) b(1) by simp
  then have 2: "ilog2 x < k + 1"
    by (rule pow2_less_cancel)
  show ?thesis using 1 2 by simp
qed

lemma ilog2_mono:
  assumes "0 < x" and "x \<le> y"
  shows "ilog2 x \<le> ilog2 y"
proof -
  have "2 powi (ilog2 x) \<le> x" using assms(1) by (rule ilog2_bounds)
  also have "x \<le> y" by fact
  also have "y < 2 powi (ilog2 y + 1)" using assms by (intro ilog2_bounds) simp
  finally have "ilog2 x < ilog2 y + 1" by (rule pow2_less_cancel)
  then show ?thesis by simp
qed

lemma round_half_even_of_int: "round_half_even (of_int n) = n"
  by (simp add: round_half_even_def)

lemma round_half_even_cases:
  "round_half_even x = \<lfloor>x\<rfloor> \<or> round_half_even x = \<lfloor>x\<rfloor> + 1"
  by (simp add: round_half_even_def Let_def)

lemma round_half_even_le:
  assumes "x \<le> of_int n"
  shows "round_half_even x \<le> n"
proof (cases "x = of_int n")
  case True
  then show ?thesis by (simp add: round_half_even_of_int)
next
  case False
  then have "x < of_int n" using assms by simp
  then have "\<lfloor>x\<rfloor> < n" by (simp add: floor_less_iff)
  then show ?thesis using round_half_even_cases [of x] by auto
qed

lemma round_half_even_ge:
  assumes "of_int n \<le> x"
  shows "n \<le> round_half_even x"
proof -
  have "n \<le> \<lfloor>x\<rfloor>" using assms by (simp add: le_floor_iff)
  then show ?thesis using round_half_even_cases [of x] by auto
qed

lemma round_half_even_mono:
  assumes "x \<le> y"
  shows "round_half_even x \<le> round_half_even y"
proof (cases "\<lfloor>x\<rfloor> = \<lfloor>y\<rfloor>")
  case True
  then show ?thesis using assms by (auto simp: round_half_even_def Let_def)
next
  case False
  moreover have "\<lfloor>x\<rfloor> \<le> \<lfloor>y\<rfloor>" using assms by (rule floor_mono)
  ultimately have "\<lfloor>x\<rfloor> + 1 \<le> \<lfloor>y\<rfloor>" by simp
  moreover have "round_half_even x \<le> \<lfloor>x\<rfloor> + 1"
    using round_half_even_cases [of x] by auto
  moreover have "\<lfloor>y\<rfloor> \<le> round_half_even y"
    using round_half_even_cases [of y] by auto
  ultimately show ?thesis by simp
qed

lemma round_half_even_minus: "round_half_even (- x) = - round_half_even x"
proof (cases "x = of_int \<lfloor>x\<rfloor>")
  case True
  then obtain n where "x = of_int n" ..
  then have "- x = of_int (- n)" by simp
  then show ?thesis using \<open>x = of_int n\<close> by (simp only: round_half_even_of_int)
next
  case False
  have fl: "of_int \<lfloor>x\<rfloor> \<le> x" and fu: "x < of_int \<lfloor>x\<rfloor> + 1" by linarith+
  from False fl have lt: "of_int \<lfloor>x\<rfloor> < x" by linarith
  have c: "of_int (- \<lfloor>x\<rfloor> - 1) = - of_int \<lfloor>x\<rfloor> - (1::real)" by simp
  have "\<lfloor>- x\<rfloor> = - \<lfloor>x\<rfloor> - 1"
  proof (rule floor_unique)
    show "of_int (- \<lfloor>x\<rfloor> - 1) \<le> - x" using fu c by linarith
    show "- x < of_int (- \<lfloor>x\<rfloor> - 1) + 1" using lt c by linarith
  qed
  then show ?thesis
    using False by (auto simp: round_half_even_def Let_def)
qed

lemma quantum_pos: "0 < quantum x"
  by (simp add: quantum_def)

lemma quantum_exp_ge: "- 1074 \<le> quantum_exp x"
  by (simp add: quantum_exp_def)

lemma pow2_split:
  assumes "q \<le> e"
  shows "(2::real) powi e = 2 powi q * of_int (2 ^ nat (e - q))"
proof -
  have "(2::real) powi e = 2 powi (q + (e - q))" by simp
  also have "\<dots> = 2 powi q * 2 powi (e - q)"
    by (rule power_int_add) simp
  also have "(2::real) powi (e - q) = 2 ^ nat (e - q)"
    using assms by (simp add: power_int_nonneg_exp)
  finally show ?thesis by simp
qed

lemma round_val_multiple:
  assumes "y = quantum y * of_int N"
  shows "round_val y = y"
proof (cases "y = 0")
  case True
  then show ?thesis by (simp add: round_val_def)
next
  case False
  have "y / quantum y = of_int N"
    using assms quantum_pos [of y] by (simp add: field_simps)
  then have "round_half_even (y / quantum y) = N"
    by (simp only: round_half_even_of_int)
  then show ?thesis using assms False by (simp add: round_val_def)
qed

lemma round_val_dyadic:
  assumes e: "- 1074 \<le> e" and n: "\<bar>n\<bar> \<le> 2 ^ 53"
  shows "round_val (2 powi e * of_int n) = 2 powi e * of_int n"
proof (cases "n = 0")
  case True
  then show ?thesis by (simp add: round_val_def)
next
  case False
  define y :: real where "y = 2 powi e * of_int n"
  have ay: "\<bar>y\<bar> = 2 powi e * of_int \<bar>n\<bar>"
    by (simp add: y_def abs_mult)
  have ypos: "0 < \<bar>y\<bar>" using False by (simp add: y_def)
  have "\<exists>N. y = quantum y * of_int N"
  proof (cases "\<bar>n\<bar> = 2 ^ 53")
    case True
    then have "\<bar>y\<bar> = 2 powi e * 2 ^ 53" using ay by simp
    also have "\<dots> = 2 powi e * 2 powi 53" by simp
    also have "\<dots> = 2 powi (e + 53)"
      by (rule power_int_add [symmetric]) simp
    finally have eq: "\<bar>y\<bar> = 2 powi (e + 53)" .
    have "ilog2 \<bar>y\<bar> = e + 53"
    proof (rule ilog2_unique)
      show "2 powi (e + 53) \<le> \<bar>y\<bar>" using eq by simp
      show "\<bar>y\<bar> < 2 powi (e + 53 + 1)"
        unfolding eq by (rule power_int_strict_increasing) simp_all
    qed
    then have q: "quantum_exp y = e + 1" using e by (simp add: quantum_exp_def)
    from True have "n = 2 * 4503599627370496 \<or> n = 2 * (- 4503599627370496)" by simp arith
    then obtain m where m: "n = 2 * m" by blast
    have "(2::real) powi (e + 1) = 2 powi e * 2 powi 1"
      by (rule power_int_add) simp
    then have "y = 2 powi (e + 1) * of_int m"
      by (simp add: y_def m)
    then show ?thesis using q by (auto simp: quantum_def)
  next
    case False
    with n have "\<bar>n\<bar> < 2 ^ 53" by simp
    then have "real_of_int \<bar>n\<bar> < 2 ^ 53"
      using real_int_less_pow2 [of "\<bar>n\<bar>" 53] by simp
    then have "\<bar>y\<bar> < 2 powi e * 2 ^ 53"
      unfolding ay by (simp add: mult_strict_left_mono)
    also have "\<dots> = 2 powi e * 2 powi 53" by simp
    also have "\<dots> = 2 powi (e + 53)"
      by (rule power_int_add [symmetric]) simp
    finally have "\<bar>y\<bar> < 2 powi (e + 53)" .
    moreover have "2 powi (ilog2 \<bar>y\<bar>) \<le> \<bar>y\<bar>"
      using ypos by (rule ilog2_bounds)
    ultimately have "(2::real) powi (ilog2 \<bar>y\<bar>) < 2 powi (e + 53)" by simp
    then have "ilog2 \<bar>y\<bar> < e + 53" by (rule pow2_less_cancel)
    then have q: "quantum_exp y \<le> e" using e by (simp add: quantum_exp_def)
    have "(2::real) powi e = 2 powi (quantum_exp y) * of_int (2 ^ nat (e - quantum_exp y))"
      using q by (rule pow2_split)
    then have "2 powi e * of_int n = quantum y * of_int (2 ^ nat (e - quantum_exp y) * n)"
      by (simp add: quantum_def)
    then have "y = quantum y * of_int (2 ^ nat (e - quantum_exp y) * n)"
      by (simp only: y_def [symmetric])
    then show ?thesis ..
  qed
  then obtain N where "y = quantum y * of_int N" ..
  then have "round_val y = y" by (rule round_val_multiple)
  then show ?thesis by (simp add: y_def)
qed

lemma round_val_int_bound:
  assumes "x \<noteq> 0"
  shows "\<bar>round_half_even (x / quantum x)\<bar> \<le> 2 ^ 53"
proof -
  have pos: "0 < \<bar>x\<bar>" using assms by simp
  have "\<bar>x\<bar> < 2 powi (ilog2 \<bar>x\<bar> + 1)" using pos by (rule ilog2_bounds)
  also have "\<dots> \<le> 2 powi (quantum_exp x + 53)"
    by (rule power_int_increasing) (simp_all add: quantum_exp_def)
  also have "\<dots> = 2 powi (quantum_exp x) * 2 powi 53"
    by (rule power_int_add) simp
  finally have "\<bar>x\<bar> < quantum x * 2 ^ 53" by (simp add: quantum_def)
  then have "\<bar>x\<bar> / quantum x < 2 ^ 53"
    using quantum_pos [of x] by (simp add: field_simps)
  then have b: "\<bar>x / quantum x\<bar> < 2 ^ 53"
    using quantum_pos [of x] by simp
  have c: "of_int (2 ^ 53) = (2::real) ^ 53" by simp
  have "x / quantum x \<le> of_int (2 ^ 53)" unfolding c using b by linarith
  then have 1: "round_half_even (x / quantum x) \<le> 2 ^ 53"
    by (rule round_half_even_le)
  have c': "of_int (- (2 ^ 53)) = - ((2::real) ^ 53)" by simp
  have "of_int (- (2 ^ 53)) \<le> x / quantum x" unfolding c' using b by linarith
  then have 2: "- (2 ^ 53) \<le> round_half_even (x / quantum x)"
    by (rule round_half_even_ge)
  show ?thesis using 1 2 by simp
qed

lemma round_val_idem: "round_val (round_val x) = round_val x"
proof (cases "x = 0")
  case True
  then show ?thesis by (simp add: round_val_def)
next
  case False
  have "round_val (2 powi (quantum_exp x) * of_int (round_half_even (x / quantum x)))
      = 2 powi (quantum_exp x) * of_int (round_half_even (x / quantum x))"
    using quantum_exp_ge round_val_int_bound [OF False] by (rule round_val_dyadic)
  then show ?thesis using False by (simp add: round_val_def quantum_def)
qed

lemma round_val_nonneg:
  assumes "0 \<le> x"
  shows "0 \<le> round_val x"
proof (cases "x = 0")
  case True
  then show ?thesis by (simp add: round_val_def)
next
  case False
  have "of_int 0 \<le> x / quantum x"
    using assms quantum_pos [of x] by simp
  then have "0 \<le> round_half_even (x / quantum x)"
    by (rule round_half_even_ge)
  then show ?thesis using False quantum_pos [of x] by (simp add: round_val_def)
qed

lemma round_val_minus: "round_val (- x) = - round_val x"
proof -
  have "quantum (- x) = quantum x" by (simp add: quantum_def quantum_exp_def)
  then show ?thesis
    by (simp add: round_val_def round_half_even_minus)
qed

lemma round_val_mono_pos:
  assumes x: "0 < x" and xy: "x \<le> y"
  shows "round_val x \<le> round_val y"
proof -
  have y: "0 < y" using x xy by simp
  have k: "ilog2 x \<le> ilog2 y" using x xy by (rule ilog2_mono)
  then have q: "quantum_exp x \<le> quantum_exp y"
    using x y by (simp add: quantum_exp_def)
  have rx: "round_val x = quantum x * of_int (round_half_even (x / quantum x))"
    using x by (simp add: round_val_def)
  have ry: "round_val y = quantum y * of_int (round_half_even (y / quantum y))"
    using y by (simp add: round_val_def)
  show ?thesis
  proof (cases "quantum_exp x = quantum_exp y")
    case True
    then have e: "quantum y = quantum x" by (simp add: quantum_def)
    have "x / quantum x \<le> y / quantum x"
      using xy quantum_pos [of x] by (simp add: divide_right_mono)
    then have "round_half_even (x / quantum x) \<le> round_half_even (y / quantum x)"
      by (rule round_half_even_mono)
    then have "real_of_int (round_half_even (x / quantum x))
             \<le> real_of_int (round_half_even (y / quantum x))"
      by (simp only: of_int_le_iff)
    then show ?thesis
      unfolding rx ry e using quantum_pos [of x] by (simp add: mult_left_mono)
  next
    case False
    with q have lt: "quantum_exp x + 1 \<le> quantum_exp y" by simp
    have "- 1074 \<le> quantum_exp x" by (rule quantum_exp_ge)
    with lt have qy: "quantum_exp y = ilog2 y - 52"
      using y by (simp add: quantum_exp_def max_def split: if_splits)
    have "x < 2 powi (ilog2 x + 1)" using x by (rule ilog2_bounds)
    also have "\<dots> \<le> 2 powi (quantum_exp x + 53)"
      using x by (intro power_int_increasing) (simp_all add: quantum_exp_def)
    also have "\<dots> = quantum x * 2 powi 53"
      unfolding quantum_def by (rule power_int_add) simp
    finally have "x / quantum x \<le> of_int (2 ^ 53)"
      using quantum_pos [of x] by (simp add: field_simps)
    then have "round_half_even (x / quantum x) \<le> 2 ^ 53"
      by (rule round_half_even_le)
    then have "real_of_int (round_half_even (x / quantum x)) \<le> real_of_int (2 ^ 53)"
      by (simp only: of_int_le_iff)
    then have "round_val x \<le> quantum x * 2 powi 53"
      unfolding rx using quantum_pos [of x] by (simp add: mult_left_mono)
    also have "\<dots> = 2 powi (quantum_exp x + 53)"
      unfolding quantum_def by (rule power_int_add [symmetric]) simp
    also have "\<dots> \<le> 2 powi (quantum_exp y + 52)"
      using lt by (intro power_int_increasing) simp_all
    also have "\<dots> = quantum y * 2 powi 52"
      unfolding quantum_def by (rule power_int_add) simp
    finally have 1: "round_val x \<le> quantum y * 2 ^ 52" by simp
    have "quantum y * 2 powi 52 = 2 powi (quantum_exp y + 52)"
      unfolding quantum_def by (rule power_int_add [symmetric]) simp
    also have "\<dots> = 2 powi (ilog2 y)" using qy by simp
    also have "\<dots> \<le> y" using y by (rule ilog2_bounds)
    finally have "of_int (2 ^ 52) \<le> y / quantum y"
      using quantum_pos [of y] by (simp add: field_simps)
    then have "2 ^ 52 \<le> round_half_even (y / quantum y)"
      by (rule round_half_even_ge)
    then have "real_of_int (2 ^ 52) \<le> real_of_int (round_half_even (y / quantum y))"
      by (simp only: of_int_le_iff)
    then have 2: "quantum y * 2 ^ 52 \<le> round_val y"
      unfolding ry using quantum_pos [of y] by (simp add: mult_left_mono)
    show ?thesis using 1 2 by simp
  qed
qed

lemma round_val_mono:
  assumes "x \<le> y"
  shows "round_val x \<le> round_val y"
proof -
  consider "0 < x" | "x \<le> 0" "0 \<le> y" | "y < 0" by linarith
  then show ?thesis
  proof cases
    case 1
    then show ?thesis using assms by (rule round_val_mono_pos)
  next
    case 2
    have "0 \<le> round_val (- x)" using 2(1) by (intro round_val_nonneg) simp
    then have "round_val x \<le> 0" by (simp add: round_val_minus)
    moreover have "0 \<le> round_val y" using 2(2) by (rule round_val_nonneg)
    ultimately show ?thesis by simp
  next
    case 3
    then have "0 < - y" and "- y \<le> - x" using assms by simp_all
    then have "round_val (- y) \<le> round_val (- x)" by (rule round_val_mono_pos)
    then show ?thesis by (simp add: round_val_minus)
  qed
qed

lemma round_val_le:
  assumes "x \<le> r" and "round_val r = r"
  shows "round_val x \<le> r"
  using round_val_mono [OF assms(1)] assms(2) by simp

lemma round_val_ge:
  assumes "r \<le> x" and "round_val r = r"
  shows "r \<le> round_val x"
  using round_val_mono [OF assms(1)] assms(2) by simp

lemma round_val_int:
  assumes "\<bar>n\<bar> \<le> 2 ^ 53"
  shows "round_val (of_int n) = of_int n"
  using round_val_dyadic [of 0 n] assms by simp

lemma rnd_zero: "rnd 0 = Finite 0"
  by (simp add: rnd_def round_val_def)

lemma round_val_eqI:
  assumes "2 powi k \<le> \<bar>x\<bar>" and "\<bar>x\<bar> < 2 powi (k + 1)"
    and "round_half_even (x / 2 powi (max (k - 52) (- 1074))) = n"
    and "y = 2 powi (max (k - 52) (- 1074)) * of_int n"
  shows "round_val x = y"
proof -
  have k: "ilog2 \<bar>x\<bar> = k" using assms(1,2) by (rule ilog2_unique)
  have "0 < \<bar>x\<bar>" using assms(1) by (rule less_le_trans [rotated]) simp
  then have "x \<noteq> 0" by simp
  then show ?thesis
    using assms(3,4) k by (simp add: round_val_def quantum_def quantum_exp_def)
qed

lemma rnd_FiniteI:
  assumes "2 powi k \<le> \<bar>x\<bar>" and "\<bar>x\<bar> < 2 powi (k + 1)"
    and "round_half_even (x / 2 powi (max (k - 52) (- 1074))) = n"
    and "y = 2 powi (max (k - 52) (- 1074)) * of_int n"
    and "\<bar>y\<bar> < 2 ^ 1024"
  shows "rnd x = Finite y"
  using round_val_eqI [OF assms(1-4)] assms(5) by (simp add: rnd_def)

lemma rnd_PInfI:
  assumes "2 powi k \<le> \<bar>x\<bar>" and "\<bar>x\<bar> < 2 powi (k + 1)"
    and "round_half_even (x / 2 powi (max (k - 52) (- 1074))) = n"
    and "2 ^ 1024 \<le> \<bar>2 powi (max (k - 52) (- 1074)) * real_of_int n\<bar>" and "0 < x"
  shows "rnd x = PInf"
  using round_val_eqI [OF assms(1-3) refl] assms(4,5) by (simp add: rnd_def)

lemma rnd_cases:
  obtains (fin) "rnd x = Finite (round_val x)" "\<bar>round_val x\<bar> < 2 ^ 1024"
  | (pinf) "rnd x = PInf" "0 < x" "2 ^ 1024 \<le> round_val x"
  | (ninf) "rnd x = NInf" "x < 0" "round_val x \<le> - (2 ^ 1024)"
proof (cases "\<bar>round_val x\<bar> < 2 ^ 1024")
  case True
  then show ?thesis by (intro fin) (simp_all add: rnd_def)
next
  case False
  then have big: "2 ^ 1024 \<le> \<bar>round_val x\<bar>" by simp
  show ?thesis
  proof (cases "0 < x")
    case True
    then have "0 \<le> round_val x" by (intro round_val_nonneg) simp
    with big True show ?thesis by (intro pinf) (simp_all add: rnd_def)
  next
    case False
    then have "0 \<le> round_val (- x)" by (intro round_val_nonneg) simp
    then have le: "round_val x \<le> 0" by (simp add: round_val_minus)
    have "x \<noteq> 0" using big by (auto simp: round_val_def)
    with False have "x < 0" by simp
    with big le show ?thesis by (intro ninf) (simp_all add: rnd_def)
  qed
qed

lemma is_double_round_val:
  assumes "\<bar>round_val x\<bar> < 2 ^ 1024"
  shows "is_double (round_val x)"
  using assms by (simp add: is_double_def round_val_idem)

lemma rnd_Finite_is_double:
  assumes "rnd x = Finite a"
  shows "is_double a"
  using assms by (cases x rule: rnd_cases) (auto intro: is_double_round_val)

lemma rnd_double:
  assumes "is_double r"
  shows "rnd r = Finite r"
  using assms by (simp add: rnd_def is_double_def)

lemma is_double_int:
  assumes "\<bar>n\<bar> \<le> 2 ^ 53"
  shows "is_double (of_int n)"
proof -
  have "real_of_int \<bar>n\<bar> \<le> real_of_int (2 ^ 53)"
    using assms by (simp only: of_int_le_iff)
  then have "\<bar>real_of_int n\<bar> \<le> 2 ^ 53" by simp
  also have "(2::real) ^ 53 < 2 ^ 1024" by simp
  finally show ?thesis using assms by (simp add: is_double_def round_val_int)
qed

lemma is_double_0: "is_double 0" and is_double_1: "is_double 1"
  and is_double_100: "is_double 100"
  using is_double_int [of 0] is_double_int [of 1] is_double_int [of 100] by simp_all

lemma rnd_between:
  assumes "0 \<le> x" and "x \<le> r" and "is_double r"
  obtains a where "rnd x = Finite a" and "0 \<le> a" and "a \<le> r" and "is_double a"
proof -
  have r: "round_val r = r" and rb: "\<bar>r\<bar> < 2 ^ 1024"
    using assms(3) by (simp_all add: is_double_def)
  have lo: "0 \<le> round_val x" using assms(1) by (rule round_val_nonneg)
  have hi: "round_val x \<le> r" using assms(2) r by (rule round_val_le)
  have b: "\<bar>round_val x\<bar> < 2 ^ 1024" using lo hi rb by simp
  then have "rnd x = Finite (round_val x)" by (simp add: rnd_def)
  moreover have "is_double (round_val x)" using b by (rule is_double_round_val)
  ultimately show ?thesis using lo hi that by blast
qed

lemma rnd_nonneg:
  assumes "0 \<le> x"
  shows "le_f64 (Finite 0) (rnd x)"
proof (cases x rule: rnd_cases)
  case fin
  then show ?thesis using round_val_nonneg [OF assms] by simp
next
  case pinf
  then show ?thesis by simp
next
  case ninf
  then show ?thesis using assms by simp
qed

lemma rnd_mono:
  assumes "x \<le> y"
  shows "le_f64 (rnd x) (rnd y)"
proof -
  have m: "round_val x \<le> round_val y" using assms by (rule round_val_mono)
  show ?thesis
  proof (cases x rule: rnd_cases)
    case fin
    show ?thesis
    proof (cases y rule: rnd_cases)
      case fin
      then show ?thesis using \<open>rnd x = Finite (round_val x)\<close> m by simp
    next
      case pinf
      then show ?thesis using \<open>rnd x = Finite (round_val x)\<close> by simp
    next
      case ninf
      then show ?thesis using \<open>\<bar>round_val x\<bar> < 2 ^ 1024\<close> m by simp
    qed
  next
    case pinf
    then have "0 < y" and "2 ^ 1024 \<le> \<bar>round_val y\<bar>" using assms m by simp_all
    then have "rnd y = PInf" by (simp add: rnd_def)
    then show ?thesis using pinf by simp
  next
    case ninf
    then show ?thesis by (cases y rule: rnd_cases) simp_all
  qed
qed

lemma truediv_f64_pos:
  assumes "less_f64 (Finite 0) b"
  shows "truediv_f64 a b = Inr (div_f64 a b)"
  using assms by (auto simp: truediv_f64_def)

lemma our_share_f64_returns:
  "our_share_f64 t p =
     Inr (if less_f64 (Finite 0) (total_in_range_f64 t p)
          then div_f64 (our_in_range_position_f64 t p) (total_in_range_f64 t p)
          else Finite 0)"
  by (simp add: our_share_f64_def truediv_f64_pos)

lemma calculate_yield_f64_returns:
  "calculate_yield_f64 t v p =
     Inr [(''our_total_position'', our_total_position_f64 t),
          (''our_in_range_position'', our_in_range_position_f64 t p),
          (''our_out_of_range_position'',
             sub_f64 (our_total_position_f64 t) (our_in_range_position_f64 t p)),
          (''total_in_range'', total_in_range_f64 t p),
          (''daily_fees'', daily_fees_f64 v),
          (''annual_fees'', annual_fees_f64 v),
          (''our_share'', mul_f64 (projr (our_share_f64 t p)) (Finite 100)),
          (''our_annual_yield'', mul_f64 (annual_fees_f64 v) (projr (our_share_f64 t p))),
          (''our_monthly_yield'',
             div_f64 (mul_f64 (annual_fees_f64 v) (projr (our_share_f64 t p))) (Finite 12)),
          (''our_apr'',
             (if less_f64 (Finite 0) (our_in_range_position_f64 t p)
              then mul_f64 (div_f64 (mul_f64 (annual_fees_f64 v) (projr (our_share_f64 t p)))
                                    (our_in_range_position_f64 t p)) (Finite 100)
              else Finite 0))]"
  by (simp add: calculate_yield_f64_def our_share_f64_returns truediv_f64_pos Let_def)

lemma our_total_position_percent_f64_eq:
  "our_total_position_percent_f64 = Finite (6124895493223875 / 9007199254740992)"
  unfolding our_total_position_percent_f64_def
  by (rule rnd_FiniteI [where k = "- 1" and n = 6124895493223875])
     (simp_all add: round_half_even_def)

lemma one_minus_percent_f64_eq:
  "sub_f64 (Finite 1) our_total_position_percent_f64
     = Finite (2882303761517117 / 9007199254740992)"
  unfolding our_total_position_percent_f64_eq sub_f64_def neg_f64.simps add_f64.simps
  by (rule rnd_FiniteI [where k = "- 2" and n = 5764607523034234])
     (simp_all add: round_half_even_def)

lemma fee_tier_f64_eq:
  "fee_tier_f64 = Finite (3458764513820541 / 576460752303423488)"
  unfolding fee_tier_f64_def
  by (rule rnd_FiniteI [where k = "- 8" and n = 6917529027641082])
     (simp_all add: round_half_even_def)

lemma is_double_neg:
  assumes "is_double t"
  shows "is_double (- t)"
  using assms by (simp add: is_double_def round_val_minus)

lemma rnd_scale:
  assumes t: "is_double t" and c: "0 \<le> c" "c \<le> 1"
  shows "\<exists>a. rnd (t * c) = Finite a \<and> is_double a \<and> \<bar>a\<bar> \<le> \<bar>t\<bar> \<and> (0 \<le> t \<longrightarrow> 0 \<le> a)"
proof (cases "0 \<le> t")
  case True
  have "0 \<le> t * c" and "t * c \<le> t"
    using True c by (simp_all add: mult_left_le)
  then obtain a where "rnd (t * c) = Finite a" "0 \<le> a" "a \<le> t" "is_double a"
    using t by (rule rnd_between)
  then show ?thesis using True by auto
next
  case False
  then have n: "0 \<le> - t" by simp
  have "0 \<le> (- t) * c" and "(- t) * c \<le> - t"
    using n c by (simp_all add: mult_left_le del: mult_minus_left)
  then obtain b where b: "rnd ((- t) * c) = Finite b" "0 \<le> b" "b \<le> - t" "is_double b"
    using is_double_neg [OF t] by (rule rnd_between)
  have rv: "round_val (t * c) = - round_val ((- t) * c)"
    using round_val_minus [of "(- t) * c"] by simp
  have "round_val ((- t) * c) = b"
    using b(1) by (cases "(- t) * c" rule: rnd_cases) simp_all
  then have e: "round_val (t * c) = - b" using rv by simp
  have "\<bar>- b\<bar> < 2 ^ 1024"
    using b(2,3) t False by (simp add: is_double_def)
  then have "rnd (t * c) = Finite (- b)" using e by (simp add: rnd_def)
  moreover have "is_double (- b)" using b(4) by (rule is_double_neg)
  moreover have "\<bar>- b\<bar> \<le> \<bar>t\<bar>" using b(2,3) False by simp
  ultimately show ?thesis using False by blast
qed

lemma our_total_position_f64_finite:
  assumes "is_double t"
  shows "\<exists>a. our_total_position_f64 (Finite t) = Finite a \<and> is_double a \<and>
             \<bar>a\<bar> \<le> \<bar>t\<bar> \<and> (0 \<le> t \<longrightarrow> 0 \<le> a)"
  using rnd_scale [OF assms, of "6124895493223875 / 9007199254740992"]
  by (simp add: our_total_position_f64_def our_total_position_percent_f64_eq)

lemma zero_percent_f64: "div_f64 (Finite 0) (Finite 100) = Finite 0"
  by (simp add: rnd_zero)

lemma our_in_range_position_f64_zero:
  assumes "is_double t"
  shows "our_in_range_position_f64 (Finite t) (Finite 0) = Finite 0"
proof -
  obtain a where "our_total_position_f64 (Finite t) = Finite a"
    using our_total_position_f64_finite [OF assms] by blast
  then show ?thesis
    by (simp add: our_in_range_position_f64_def rnd_zero)
qed

lemma div_f64_zero: "b \<noteq> NaN \<Longrightarrow> div_f64 (Finite 0) b = Finite 0"
  by (cases b) (simp_all add: rnd_zero)

lemma our_share_f64_zero:
  assumes "is_double t"
  shows "our_share_f64 (Finite t) (Finite 0) = Inr (Finite 0)"
proof -
  have "less_f64 (Finite 0) b \<Longrightarrow> div_f64 (Finite 0) b = Finite 0" for b
    by (cases b) (simp_all add: rnd_zero)
  then show ?thesis
    by (simp add: our_share_f64_returns our_in_range_position_f64_zero [OF assms])
qed

lemma mul_f64_zero:
  "mul_f64 a (Finite 0) = (case a of Finite x \<Rightarrow> Finite 0 | _ \<Rightarrow> NaN)"
  by (cases a) (simp_all add: rnd_zero inf_of_sign_def)

lemma le_f64_zero_cases:
  assumes "le_f64 (Finite 0) z"
  obtains (fin) r where "z = Finite r" and "0 \<le> r" | (pinf) "z = PInf"
  using assms by (cases z) simp_all

lemma le_f64_Finite_cases:
  assumes "le_f64 (Finite i) z"
  obtains (fin) r where "z = Finite r" and "i \<le> r" | (pinf) "z = PInf"
  using assms by (cases z) simp_all

lemma mul_f64_nonneg_pos:
  assumes "le_f64 (Finite 0) a" and "0 < c"
  shows "le_f64 (Finite 0) (mul_f64 a (Finite c))"
  using assms(1)
proof (cases rule: le_f64_zero_cases)
  case (fin r)
  then show ?thesis using assms(2) by (simp add: rnd_nonneg)
next
  case pinf
  then show ?thesis using assms(2) by (simp add: inf_of_sign_def)
qed

lemma annual_fees_f64_nonneg:
  assumes "0 \<le> v"
  shows "le_f64 (Finite 0) (annual_fees_f64 (Finite v))"
proof -
  have "le_f64 (Finite 0) (daily_fees_f64 (Finite v))"
    using assms by (simp add: daily_fees_f64_def fee_tier_f64_eq rnd_nonneg)
  then show ?thesis
    unfolding annual_fees_f64_def by (rule mul_f64_nonneg_pos) simp
qed

lemma annual_fees_f64_is_double:
  assumes "annual_fees_f64 V = Finite f"
  shows "is_double f"
proof (cases "daily_fees_f64 V")
  case (Finite d)
  then have "rnd (d * 365) = Finite f"
    using assms by (simp add: annual_fees_f64_def)
  then show ?thesis by (rule rnd_Finite_is_double)
next
  case PInf
  then show ?thesis using assms by (simp add: annual_fees_f64_def inf_of_sign_def)
next
  case NInf
  then show ?thesis using assms by (simp add: annual_fees_f64_def inf_of_sign_def)
next
  case NaN
  then show ?thesis using assms by (simp add: annual_fees_f64_def)
qed

lemma mul_f64_mono_pos:
  assumes "le_f64 a b" and "0 < c"
  shows "le_f64 (mul_f64 a (Finite c)) (mul_f64 b (Finite c))"
proof (cases a)
  case a: (Finite x)
  show ?thesis
  proof (cases b)
    case (Finite y)
    then have "x * c \<le> y * c" using assms a by simp
    then show ?thesis using a Finite by (simp add: rnd_mono)
  next
    case PInf
    have "le_f64 (rnd (x * c)) PInf" by (cases "x * c" rule: rnd_cases) simp_all
    then show ?thesis using a PInf assms(2) by (simp add: inf_of_sign_def)
  qed (use assms a in simp_all)
next
  case PInf
  then show ?thesis using assms by (cases b) (simp_all add: inf_of_sign_def)
next
  case NInf
  have "le_f64 NInf (rnd z)" for z by (cases z rule: rnd_cases) simp_all
  then show ?thesis using NInf assms by (cases b) (simp_all add: inf_of_sign_def)
next
  case NaN
  then show ?thesis using assms by simp
qed

lemma less_f64_imp_le: "less_f64 a b \<Longrightarrow> le_f64 a b"
  by (cases a; cases b) simp_all

lemma annual_fees_f64_mono:
  assumes "le_f64 v1 v2"
  shows "le_f64 (annual_fees_f64 v1) (annual_fees_f64 v2)"
proof -
  have "le_f64 (daily_fees_f64 v1) (daily_fees_f64 v2)"
    unfolding daily_fees_f64_def fee_tier_f64_eq
    using assms by (rule mul_f64_mono_pos) simp
  then show ?thesis
    unfolding annual_fees_f64_def by (rule mul_f64_mono_pos) simp
qed

section \<open>The float function at given inputs\<close>

text \<open>
  Each lemma evaluates one operation at the operands that occur in a call of the
  function: the binary exponent and the rounded integer are given, and the
  simplifier checks them. The lemmas named after an input give the whole returned
  dictionary there.
\<close>

lemma is_double_147000: "is_double 147000"
  using is_double_int [of 147000] by simp

lemma is_double_100000: "is_double 100000"
  using is_double_int [of 100000] by simp

lemma is_double_50: "is_double 50"
  using is_double_int [of 50] by simp

lemma mul_eval_1:
  "mul_f64 (Finite 147000) (Finite (6124895493223875 / 9007199254740992)) = (Finite 99960)"
  unfolding mul_f64.simps
  by (rule rnd_FiniteI [where k = "16" and n = "6869198894530560"])
     (simp_all add: round_half_even_def)

lemma sub_eval_2:
  "sub_f64 (Finite 1) (Finite (6124895493223875 / 9007199254740992)) = (Finite (2882303761517117 / 9007199254740992))"
  unfolding sub_f64_def neg_f64.simps add_f64.simps
  by (rule rnd_FiniteI [where k = "- 2" and n = "5764607523034234"])
     (simp_all add: round_half_even_def)

lemma div_eval_3:
  "div_f64 (Finite 100) (Finite 100) = (Finite 1)"
  unfolding div_f64.simps
  by (rule rnd_FiniteI [where k = "0" and n = "4503599627370496"])
     (simp_all add: round_half_even_def)

lemma mul_eval_4:
  "mul_f64 (Finite 99960) (Finite 1) = (Finite 99960)"
  unfolding mul_f64.simps
  by (rule rnd_FiniteI [where k = "16" and n = "6869198894530560"])
     (simp_all add: round_half_even_def)

lemma sub_eval_5:
  "sub_f64 (Finite 99960) (Finite 99960) = (Finite 0)"
  unfolding sub_f64_def neg_f64.simps add_f64.simps
  by (simp add: rnd_zero)

lemma mul_eval_6:
  "mul_f64 (Finite 147000) (Finite (2882303761517117 / 9007199254740992)) = (Finite (6465128371322879 / 137438953472))"
  unfolding mul_f64.simps
  by (rule rnd_FiniteI [where k = "15" and n = "6465128371322879"])
     (simp_all add: round_half_even_def)

lemma add_eval_7:
  "add_f64 (Finite (6465128371322879 / 137438953472)) (Finite 99960) = (Finite 147000)"
  unfolding add_f64.simps
  by (rule rnd_FiniteI [where k = "17" and n = "5050881540096000"])
     (simp_all add: round_half_even_def)

lemma mul_eval_8:
  "mul_f64 (Finite 100000) (Finite (3458764513820541 / 576460752303423488)) = (Finite 600)"
  unfolding mul_f64.simps
  by (rule rnd_FiniteI [where k = "9" and n = "5277655813324800"])
     (simp_all add: round_half_even_def)

lemma mul_eval_9:
  "mul_f64 (Finite 600) (Finite 365) = (Finite 219000)"
  unfolding mul_f64.simps
  by (rule rnd_FiniteI [where k = "17" and n = "7524782702592000"])
     (simp_all add: round_half_even_def)

lemma pos_eval_10:
  "less_f64 (Finite 0) (Finite 147000)"
  by simp

lemma div_eval_11:
  "div_f64 (Finite 99960) (Finite 147000) = (Finite (6124895493223875 / 9007199254740992))"
  unfolding div_f64.simps
  by (rule rnd_FiniteI [where k = "- 1" and n = "6124895493223875"])
     (simp_all add: round_half_even_def)

lemma mul_eval_12:
  "mul_f64 (Finite (6124895493223875 / 9007199254740992)) (Finite 100) = (Finite 68)"
  unfolding mul_f64.simps
  by (rule rnd_FiniteI [where k = "6" and n = "4785074604081152"])
     (simp_all add: round_half_even_def)

lemma mul_eval_13:
  "mul_f64 (Finite 219000) (Finite (6124895493223875 / 9007199254740992)) = (Finite 148920)"
  unfolding mul_f64.simps
  by (rule rnd_FiniteI [where k = "17" and n = "5116852237762560"])
     (simp_all add: round_half_even_def)

lemma div_eval_14:
  "div_f64 (Finite 148920) (Finite 12) = (Finite 12410)"
  unfolding div_f64.simps
  by (rule rnd_FiniteI [where k = "13" and n = "6822469650350080"])
     (simp_all add: round_half_even_def)

lemma pos_eval_15:
  "less_f64 (Finite 0) (Finite 99960)"
  by simp

lemma div_eval_16:
  "div_f64 (Finite 148920) (Finite 99960) = (Finite (3354722171408635 / 2251799813685248))"
  unfolding div_f64.simps
  by (rule rnd_FiniteI [where k = "0" and n = "6709444342817270"])
     (simp_all add: round_half_even_def)

lemma mul_eval_17:
  "mul_f64 (Finite (3354722171408635 / 2251799813685248)) (Finite 100) = (Finite (655219174103249 / 4398046511104))"
  unfolding mul_f64.simps
  by (rule rnd_FiniteI [where k = "7" and n = "5241753392825992"])
     (simp_all add: round_half_even_def)

lemma yield_f64_at_147000_100000_100:
  "calculate_yield_f64 (Finite 147000) (Finite 100000) (Finite 100) =
     Inr [(''our_total_position'', (Finite 99960)),
          (''our_in_range_position'', (Finite 99960)),
          (''our_out_of_range_position'', (Finite 0)),
          (''total_in_range'', (Finite 147000)),
          (''daily_fees'', (Finite 600)),
          (''annual_fees'', (Finite 219000)),
          (''our_share'', (Finite 68)),
          (''our_annual_yield'', (Finite 148920)),
          (''our_monthly_yield'', (Finite 12410)),
          (''our_apr'', (Finite (655219174103249 / 4398046511104)))]"
  by (simp only: calculate_yield_f64_def our_share_f64_def total_in_range_f64_def
      others_position_f64_def our_in_range_position_f64_def our_total_position_f64_def
      annual_fees_f64_def daily_fees_f64_def fee_tier_f64_eq
      our_total_position_percent_f64_eq truediv_f64_pos
      Let_def if_True if_False sum.case
      mul_eval_1 sub_eval_2 div_eval_3 mul_eval_4 sub_eval_5 mul_eval_6
      add_eval_7 mul_eval_8 mul_eval_9 pos_eval_10 div_eval_11 mul_eval_12
      mul_eval_13 div_eval_14 pos_eval_15 div_eval_16 mul_eval_17)

lemma yield_f64_at_147000_100000_100_annual_fees:
  "annual_fees_f64 (Finite 100000) = (Finite 219000)"
  by (simp only: our_share_f64_def total_in_range_f64_def
      others_position_f64_def our_in_range_position_f64_def our_total_position_f64_def
      annual_fees_f64_def daily_fees_f64_def fee_tier_f64_eq
      our_total_position_percent_f64_eq truediv_f64_pos
      Let_def if_True if_False sum.case
      mul_eval_1 sub_eval_2 div_eval_3 mul_eval_4 sub_eval_5 mul_eval_6
      add_eval_7 mul_eval_8 mul_eval_9 pos_eval_10 div_eval_11 mul_eval_12
      mul_eval_13 div_eval_14 pos_eval_15 div_eval_16 mul_eval_17)

lemma yield_f64_at_147000_100000_100_in_range:
  "our_in_range_position_f64 (Finite 147000) (Finite 100) = (Finite 99960)"
  by (simp only: our_share_f64_def total_in_range_f64_def
      others_position_f64_def our_in_range_position_f64_def our_total_position_f64_def
      annual_fees_f64_def daily_fees_f64_def fee_tier_f64_eq
      our_total_position_percent_f64_eq truediv_f64_pos
      Let_def if_True if_False sum.case
      mul_eval_1 sub_eval_2 div_eval_3 mul_eval_4 sub_eval_5 mul_eval_6
      add_eval_7 mul_eval_8 mul_eval_9 pos_eval_10 div_eval_11 mul_eval_12
      mul_eval_13 div_eval_14 pos_eval_15 div_eval_16 mul_eval_17)

lemma yield_f64_at_147000_100000_100_total:
  "total_in_range_f64 (Finite 147000) (Finite 100) = (Finite 147000)"
  by (simp only: our_share_f64_def total_in_range_f64_def
      others_position_f64_def our_in_range_position_f64_def our_total_position_f64_def
      annual_fees_f64_def daily_fees_f64_def fee_tier_f64_eq
      our_total_position_percent_f64_eq truediv_f64_pos
      Let_def if_True if_False sum.case
      mul_eval_1 sub_eval_2 div_eval_3 mul_eval_4 sub_eval_5 mul_eval_6
      add_eval_7 mul_eval_8 mul_eval_9 pos_eval_10 div_eval_11 mul_eval_12
      mul_eval_13 div_eval_14 pos_eval_15 div_eval_16 mul_eval_17)

lemma yield_f64_at_147000_100000_100_share:
  "our_share_f64 (Finite 147000) (Finite 100) = Inr (Finite (6124895493223875 / 9007199254740992))"
  by (simp only: our_share_f64_def total_in_range_f64_def
      others_position_f64_def our_in_range_position_f64_def our_total_position_f64_def
      annual_fees_f64_def daily_fees_f64_def fee_tier_f64_eq
      our_total_position_percent_f64_eq truediv_f64_pos
      Let_def if_True if_False sum.case
      mul_eval_1 sub_eval_2 div_eval_3 mul_eval_4 sub_eval_5 mul_eval_6
      add_eval_7 mul_eval_8 mul_eval_9 pos_eval_10 div_eval_11 mul_eval_12
      mul_eval_13 div_eval_14 pos_eval_15 div_eval_16 mul_eval_17)

lemma div_eval_18:
  "div_f64 (Finite 0) (Finite 100) = (Finite 0)"
  unfolding div_f64.simps
  by (simp add: rnd_zero)

lemma mul_eval_19:
  "mul_f64 (Finite 99960) (Finite 0) = (Finite 0)"
  unfolding mul_f64.simps
  by (simp add: rnd_zero)

lemma sub_eval_20:
  "sub_f64 (Finite 99960) (Finite 0) = (Finite 99960)"
  unfolding sub_f64_def neg_f64.simps add_f64.simps
  by (rule rnd_FiniteI [where k = "16" and n = "6869198894530560"])
     (simp_all add: round_half_even_def)

lemma add_eval_21:
  "add_f64 (Finite (6465128371322879 / 137438953472)) (Finite 0) = (Finite (6465128371322879 / 137438953472))"
  unfolding add_f64.simps
  by (rule rnd_FiniteI [where k = "15" and n = "6465128371322879"])
     (simp_all add: round_half_even_def)

lemma pos_eval_22:
  "less_f64 (Finite 0) (Finite (6465128371322879 / 137438953472))"
  by simp

lemma div_eval_23:
  "div_f64 (Finite 0) (Finite (6465128371322879 / 137438953472)) = (Finite 0)"
  unfolding div_f64.simps
  by (simp add: rnd_zero)

lemma mul_eval_24:
  "mul_f64 (Finite 0) (Finite 100) = (Finite 0)"
  unfolding mul_f64.simps
  by (simp add: rnd_zero)

lemma mul_eval_25:
  "mul_f64 (Finite 219000) (Finite 0) = (Finite 0)"
  unfolding mul_f64.simps
  by (simp add: rnd_zero)

lemma div_eval_26:
  "div_f64 (Finite 0) (Finite 12) = (Finite 0)"
  unfolding div_f64.simps
  by (simp add: rnd_zero)

lemma pos_eval_27:
  "\<not> less_f64 (Finite 0) (Finite 0)"
  by simp

lemma yield_f64_at_147000_100000_0:
  "calculate_yield_f64 (Finite 147000) (Finite 100000) (Finite 0) =
     Inr [(''our_total_position'', (Finite 99960)),
          (''our_in_range_position'', (Finite 0)),
          (''our_out_of_range_position'', (Finite 99960)),
          (''total_in_range'', (Finite (6465128371322879 / 137438953472))),
          (''daily_fees'', (Finite 600)),
          (''annual_fees'', (Finite 219000)),
          (''our_share'', (Finite 0)),
          (''our_annual_yield'', (Finite 0)),
          (''our_monthly_yield'', (Finite 0)),
          (''our_apr'', (Finite 0))]"
  by (simp only: calculate_yield_f64_def our_share_f64_def total_in_range_f64_def
      others_position_f64_def our_in_range_position_f64_def our_total_position_f64_def
      annual_fees_f64_def daily_fees_f64_def fee_tier_f64_eq
      our_total_position_percent_f64_eq truediv_f64_pos
      Let_def if_True if_False sum.case
      mul_eval_1 sub_eval_2 div_eval_18 mul_eval_19 sub_eval_20 mul_eval_6
      add_eval_21 mul_eval_8 mul_eval_9 pos_eval_22 div_eval_23 mul_eval_24
      mul_eval_25 div_eval_26 pos_eval_27)

lemma yield_f64_at_147000_100000_0_annual_fees:
  "annual_fees_f64 (Finite 100000) = (Finite 219000)"
  by (simp only: our_share_f64_def total_in_range_f64_def
      others_position_f64_def our_in_range_position_f64_def our_total_position_f64_def
      annual_fees_f64_def daily_fees_f64_def fee_tier_f64_eq
      our_total_position_percent_f64_eq truediv_f64_pos
      Let_def if_True if_False sum.case
      mul_eval_1 sub_eval_2 div_eval_18 mul_eval_19 sub_eval_20 mul_eval_6
      add_eval_21 mul_eval_8 mul_eval_9 pos_eval_22 div_eval_23 mul_eval_24
      mul_eval_25 div_eval_26 pos_eval_27)

lemma yield_f64_at_147000_100000_0_in_range:
  "our_in_range_position_f64 (Finite 147000) (Finite 0) = (Finite 0)"
  by (simp only: our_share_f64_def total_in_range_f64_def
      others_position_f64_def our_in_range_position_f64_def our_total_position_f64_def
      annual_fees_f64_def daily_fees_f64_def fee_tier_f64_eq
      our_total_position_percent_f64_eq truediv_f64_pos
      Let_def if_True if_False sum.case
      mul_eval_1 sub_eval_2 div_eval_18 mul_eval_19 sub_eval_20 mul_eval_6
      add_eval_21 mul_eval_8 mul_eval_9 pos_eval_22 div_eval_23 mul_eval_24
      mul_eval_25 div_eval_26 pos_eval_27)

lemma yield_f64_at_147000_100000_0_total:
  "total_in_range_f64 (Finite 147000) (Finite 0) = (Finite (6465128371322879 / 137438953472))"
  by (simp only: our_share_f64_def total_in_range_f64_def
      others_position_f64_def our_in_range_position_f64_def our_total_position_f64_def
      annual_fees_f64_def daily_fees_f64_def fee_tier_f64_eq
      our_total_position_percent_f64_eq truediv_f64_pos
      Let_def if_True if_False sum.case
      mul_eval_1 sub_eval_2 div_eval_18 mul_eval_19 sub_eval_20 mul_eval_6
      add_eval_21 mul_eval_8 mul_eval_9 pos_eval_22 div_eval_23 mul_eval_24
      mul_eval_25 div_eval_26 pos_eval_27)

lemma yield_f64_at_147000_100000_0_share:
  "our_share_f64 (Finite 147000) (Finite 0) = Inr (Finite 0)"
  by (simp only: our_share_f64_def total_in_range_f64_def
      others_position_f64_def our_in_range_position_f64_def our_total_position_f64_def
      annual_fees_f64_def daily_fees_f64_def fee_tier_f64_eq
      our_total_position_percent_f64_eq truediv_f64_pos
      Let_def if_True if_False sum.case
      mul_eval_1 sub_eval_2 div_eval_18 mul_eval_19 sub_eval_20 mul_eval_6
      add_eval_21 mul_eval_8 mul_eval_9 pos_eval_22 div_eval_23 mul_eval_24
      mul_eval_25 div_eval_26 pos_eval_27)

lemma mul_eval_28:
  "mul_f64 (Finite 100000000000000001097906362944045541740492309677311846336810682903157585404911491537163328978494688899061249669721172515611590283743140088328307009198146046031271664502933027185697489699588559043338384466165001178426897626212945177628091195786707458122783970171784415105291802893207873272974885715430223118336) (Finite (3458764513820541 / 576460752303423488)) = (Finite 600000000000000041514643594521869954429476336208545984201261155039452488724045691874188081577839284631131894139451804157162361475827507299487506852076765339123136457002148018714284214841530693316940432073342282766995128786796340949057730139335476554291671018871479247006366687684977968379122980823601512448)"
  unfolding mul_f64.simps
  by (rule rnd_FiniteI [where k = "1015" and n = "7696006502434456"])
     (simp_all add: round_half_even_def)

lemma mul_eval_29:
  "mul_f64 (Finite 600000000000000041514643594521869954429476336208545984201261155039452488724045691874188081577839284631131894139451804157162361475827507299487506852076765339123136457002148018714284214841530693316940432073342282766995128786796340949057730139335476554291671018871479247006366687684977968379122980823601512448) (Finite 365) = PInf"
  unfolding mul_f64.simps
  by (rule rnd_PInfI [where k = "1024" and n = "5486410885524563"])
     (simp_all add: round_half_even_def)

lemma mul_eval_30:
  "mul_f64 PInf (Finite 0) = NaN"
  by (simp add: inf_of_sign_def sub_f64_def)

lemma div_eval_31:
  "div_f64 NaN (Finite 12) = NaN"
  by (simp add: inf_of_sign_def sub_f64_def)

lemma yield_f64_at_147000_1e308_0:
  "calculate_yield_f64 (Finite 147000) (Finite 100000000000000001097906362944045541740492309677311846336810682903157585404911491537163328978494688899061249669721172515611590283743140088328307009198146046031271664502933027185697489699588559043338384466165001178426897626212945177628091195786707458122783970171784415105291802893207873272974885715430223118336) (Finite 0) =
     Inr [(''our_total_position'', (Finite 99960)),
          (''our_in_range_position'', (Finite 0)),
          (''our_out_of_range_position'', (Finite 99960)),
          (''total_in_range'', (Finite (6465128371322879 / 137438953472))),
          (''daily_fees'', (Finite 600000000000000041514643594521869954429476336208545984201261155039452488724045691874188081577839284631131894139451804157162361475827507299487506852076765339123136457002148018714284214841530693316940432073342282766995128786796340949057730139335476554291671018871479247006366687684977968379122980823601512448)),
          (''annual_fees'', PInf),
          (''our_share'', (Finite 0)),
          (''our_annual_yield'', NaN),
          (''our_monthly_yield'', NaN),
          (''our_apr'', (Finite 0))]"
  by (simp only: calculate_yield_f64_def our_share_f64_def total_in_range_f64_def
      others_position_f64_def our_in_range_position_f64_def our_total_position_f64_def
      annual_fees_f64_def daily_fees_f64_def fee_tier_f64_eq
      our_total_position_percent_f64_eq truediv_f64_pos
      Let_def if_True if_False sum.case
      mul_eval_1 sub_eval_2 div_eval_18 mul_eval_19 sub_eval_20 mul_eval_6
      add_eval_21 mul_eval_28 mul_eval_29 pos_eval_22 div_eval_23 mul_eval_24
      mul_eval_30 div_eval_31 pos_eval_27)

lemma yield_f64_at_147000_1e308_0_annual_fees:
  "annual_fees_f64 (Finite 100000000000000001097906362944045541740492309677311846336810682903157585404911491537163328978494688899061249669721172515611590283743140088328307009198146046031271664502933027185697489699588559043338384466165001178426897626212945177628091195786707458122783970171784415105291802893207873272974885715430223118336) = PInf"
  by (simp only: our_share_f64_def total_in_range_f64_def
      others_position_f64_def our_in_range_position_f64_def our_total_position_f64_def
      annual_fees_f64_def daily_fees_f64_def fee_tier_f64_eq
      our_total_position_percent_f64_eq truediv_f64_pos
      Let_def if_True if_False sum.case
      mul_eval_1 sub_eval_2 div_eval_18 mul_eval_19 sub_eval_20 mul_eval_6
      add_eval_21 mul_eval_28 mul_eval_29 pos_eval_22 div_eval_23 mul_eval_24
      mul_eval_30 div_eval_31 pos_eval_27)

lemma yield_f64_at_147000_1e308_0_in_range:
  "our_in_range_position_f64 (Finite 147000) (Finite 0) = (Finite 0)"
  by (simp only: our_share_f64_def total_in_range_f64_def
      others_position_f64_def our_in_range_position_f64_def our_total_position_f64_def
      annual_fees_f64_def daily_fees_f64_def fee_tier_f64_eq
      our_total_position_percent_f64_eq truediv_f64_pos
      Let_def if_True if_False sum.case
      mul_eval_1 sub_eval_2 div_eval_18 mul_eval_19 sub_eval_20 mul_eval_6
      add_eval_21 mul_eval_28 mul_eval_29 pos_eval_22 div_eval_23 mul_eval_24
      mul_eval_30 div_eval_31 pos_eval_27)

lemma yield_f64_at_147000_1e308_0_total:
  "total_in_range_f64 (Finite 147000) (Finite 0) = (Finite (6465128371322879 / 137438953472))"
  by (simp only: our_share_f64_def total_in_range_f64_def
      others_position_f64_def our_in_range_position_f64_def our_total_position_f64_def
      annual_fees_f64_def daily_fees_f64_def fee_tier_f64_eq
      our_total_position_percent_f64_eq truediv_f64_pos
      Let_def if_True if_False sum.case
      mul_eval_1 sub_eval_2 div_eval_18 mul_eval_19 sub_eval_20 mul_eval_6
      add_eval_21 mul_eval_28 mul_eval_29 pos_eval_22 div_eval_23 mul_eval_24
      mul_eval_30 div_eval_31 pos_eval_27)

lemma yield_f64_at_147000_1e308_0_share:
  "our_share_f64 (Finite 147000) (Finite 0) = Inr (Finite 0)"
  by (simp only: our_share_f64_def total_in_range_f64_def
      others_position_f64_def our_in_range_position_f64_def our_total_position_f64_def
      annual_fees_f64_def daily_fees_f64_def fee_tier_f64_eq
      our_total_position_percent_f64_eq truediv_f64_pos
      Let_def if_True if_False sum.case
      mul_eval_1 sub_eval_2 div_eval_18 mul_eval_19 sub_eval_20 mul_eval_6
      add_eval_21 mul_eval_28 mul_eval_29 pos_eval_22 div_eval_23 mul_eval_24
      mul_eval_30 div_eval_31 pos_eval_27)

lemma mul_eval_32:
  "mul_f64 (Finite 0) (Finite (6124895493223875 / 9007199254740992)) = (Finite 0)"
  unfolding mul_f64.simps
  by (simp add: rnd_zero)

lemma div_eval_33:
  "div_f64 (Finite 50) (Finite 100) = (Finite (1 / 2))"
  unfolding div_f64.simps
  by (rule rnd_FiniteI [where k = "- 1" and n = "4503599627370496"])
     (simp_all add: round_half_even_def)

lemma mul_eval_34:
  "mul_f64 (Finite 0) (Finite (1 / 2)) = (Finite 0)"
  unfolding mul_f64.simps
  by (simp add: rnd_zero)

lemma sub_eval_35:
  "sub_f64 (Finite 0) (Finite 0) = (Finite 0)"
  unfolding sub_f64_def neg_f64.simps add_f64.simps
  by (simp add: rnd_zero)

lemma mul_eval_36:
  "mul_f64 (Finite 0) (Finite (2882303761517117 / 9007199254740992)) = (Finite 0)"
  unfolding mul_f64.simps
  by (simp add: rnd_zero)

lemma add_eval_37:
  "add_f64 (Finite 0) (Finite 0) = (Finite 0)"
  unfolding add_f64.simps
  by (simp add: rnd_zero)

lemma yield_f64_at_0_1e308_50:
  "calculate_yield_f64 (Finite 0) (Finite 100000000000000001097906362944045541740492309677311846336810682903157585404911491537163328978494688899061249669721172515611590283743140088328307009198146046031271664502933027185697489699588559043338384466165001178426897626212945177628091195786707458122783970171784415105291802893207873272974885715430223118336) (Finite 50) =
     Inr [(''our_total_position'', (Finite 0)),
          (''our_in_range_position'', (Finite 0)),
          (''our_out_of_range_position'', (Finite 0)),
          (''total_in_range'', (Finite 0)),
          (''daily_fees'', (Finite 600000000000000041514643594521869954429476336208545984201261155039452488724045691874188081577839284631131894139451804157162361475827507299487506852076765339123136457002148018714284214841530693316940432073342282766995128786796340949057730139335476554291671018871479247006366687684977968379122980823601512448)),
          (''annual_fees'', PInf),
          (''our_share'', (Finite 0)),
          (''our_annual_yield'', NaN),
          (''our_monthly_yield'', NaN),
          (''our_apr'', (Finite 0))]"
  by (simp only: calculate_yield_f64_def our_share_f64_def total_in_range_f64_def
      others_position_f64_def our_in_range_position_f64_def our_total_position_f64_def
      annual_fees_f64_def daily_fees_f64_def fee_tier_f64_eq
      our_total_position_percent_f64_eq truediv_f64_pos
      Let_def if_True if_False sum.case
      mul_eval_32 sub_eval_2 div_eval_33 mul_eval_34 sub_eval_35 mul_eval_36
      add_eval_37 mul_eval_28 mul_eval_29 pos_eval_27 mul_eval_24 mul_eval_30
      div_eval_31)

lemma yield_f64_at_0_1e308_50_annual_fees:
  "annual_fees_f64 (Finite 100000000000000001097906362944045541740492309677311846336810682903157585404911491537163328978494688899061249669721172515611590283743140088328307009198146046031271664502933027185697489699588559043338384466165001178426897626212945177628091195786707458122783970171784415105291802893207873272974885715430223118336) = PInf"
  by (simp only: our_share_f64_def total_in_range_f64_def
      others_position_f64_def our_in_range_position_f64_def our_total_position_f64_def
      annual_fees_f64_def daily_fees_f64_def fee_tier_f64_eq
      our_total_position_percent_f64_eq truediv_f64_pos
      Let_def if_True if_False sum.case
      mul_eval_32 sub_eval_2 div_eval_33 mul_eval_34 sub_eval_35 mul_eval_36
      add_eval_37 mul_eval_28 mul_eval_29 pos_eval_27 mul_eval_24 mul_eval_30
      div_eval_31)

lemma yield_f64_at_0_1e308_50_in_range:
  "our_in_range_position_f64 (Finite 0) (Finite 50) = (Finite 0)"
  by (simp only: our_share_f64_def total_in_range_f64_def
      others_position_f64_def our_in_range_position_f64_def our_total_position_f64_def
      annual_fees_f64_def daily_fees_f64_def fee_tier_f64_eq
      our_total_position_percent_f64_eq truediv_f64_pos
      Let_def if_True if_False sum.case
      mul_eval_32 sub_eval_2 div_eval_33 mul_eval_34 sub_eval_35 mul_eval_36
      add_eval_37 mul_eval_28 mul_eval_29 pos_eval_27 mul_eval_24 mul_eval_30
      div_eval_31)

lemma yield_f64_at_0_1e308_50_total:
  "total_in_range_f64 (Finite 0) (Finite 50) = (Finite 0)"
  by (simp only: our_share_f64_def total_in_range_f64_def
      others_position_f64_def our_in_range_position_f64_def our_total_position_f64_def
      annual_fees_f64_def daily_fees_f64_def fee_tier_f64_eq
      our_total_position_percent_f64_eq truediv_f64_pos
      Let_def if_True if_False sum.case
      mul_eval_32 sub_eval_2 div_eval_33 mul_eval_34 sub_eval_35 mul_eval_36
      add_eval_37 mul_eval_28 mul_eval_29 pos_eval_27 mul_eval_24 mul_eval_30
      div_eval_31)

lemma yield_f64_at_0_1e308_50_share:
  "our_share_f64 (Finite 0) (Finite 50) = Inr (Finite 0)"
  by (simp only: our_share_f64_def total_in_range_f64_def
      others_position_f64_def our_in_range_position_f64_def our_total_position_f64_def
      annual_fees_f64_def daily_fees_f64_def fee_tier_f64_eq
      our_total_position_percent_f64_eq truediv_f64_pos
      Let_def if_True if_False sum.case
      mul_eval_32 sub_eval_2 div_eval_33 mul_eval_34 sub_eval_35 mul_eval_36
      add_eval_37 mul_eval_28 mul_eval_29 pos_eval_27 mul_eval_24 mul_eval_30
      div_eval_31)

lemma mul_eval_38:
  "mul_f64 (Finite 0) (Finite (3458764513820541 / 576460752303423488)) = (Finite 0)"
  unfolding mul_f64.simps
  by (simp add: rnd_zero)

lemma mul_eval_39:
  "mul_f64 (Finite 0) (Finite 365) = (Finite 0)"
  unfolding mul_f64.simps
  by (simp add: rnd_zero)

lemma div_eval_40:
  "div_f64 (Finite 0) (Finite 99960) = (Finite 0)"
  unfolding div_f64.simps
  by (simp add: rnd_zero)

lemma yield_f64_at_147000_0_100:
  "calculate_yield_f64 (Finite 147000) (Finite 0) (Finite 100) =
     Inr [(''our_total_position'', (Finite 99960)),
          (''our_in_range_position'', (Finite 99960)),
          (''our_out_of_range_position'', (Finite 0)),
          (''total_in_range'', (Finite 147000)),
          (''daily_fees'', (Finite 0)),
          (''annual_fees'', (Finite 0)),
          (''our_share'', (Finite 68)),
          (''our_annual_yield'', (Finite 0)),
          (''our_monthly_yield'', (Finite 0)),
          (''our_apr'', (Finite 0))]"
  by (simp only: calculate_yield_f64_def our_share_f64_def total_in_range_f64_def
      others_position_f64_def our_in_range_position_f64_def our_total_position_f64_def
      annual_fees_f64_def daily_fees_f64_def fee_tier_f64_eq
      our_total_position_percent_f64_eq truediv_f64_pos
      Let_def if_True if_False sum.case
      mul_eval_1 sub_eval_2 div_eval_3 mul_eval_4 sub_eval_5 mul_eval_6
      add_eval_7 mul_eval_38 mul_eval_39 pos_eval_10 div_eval_11 mul_eval_12
      mul_eval_32 div_eval_26 pos_eval_15 div_eval_40 mul_eval_24)

lemma yield_f64_at_147000_0_100_annual_fees:
  "annual_fees_f64 (Finite 0) = (Finite 0)"
  by (simp only: our_share_f64_def total_in_range_f64_def
      others_position_f64_def our_in_range_position_f64_def our_total_position_f64_def
      annual_fees_f64_def daily_fees_f64_def fee_tier_f64_eq
      our_total_position_percent_f64_eq truediv_f64_pos
      Let_def if_True if_False sum.case
      mul_eval_1 sub_eval_2 div_eval_3 mul_eval_4 sub_eval_5 mul_eval_6
      add_eval_7 mul_eval_38 mul_eval_39 pos_eval_10 div_eval_11 mul_eval_12
      mul_eval_32 div_eval_26 pos_eval_15 div_eval_40 mul_eval_24)

lemma yield_f64_at_147000_0_100_in_range:
  "our_in_range_position_f64 (Finite 147000) (Finite 100) = (Finite 99960)"
  by (simp only: our_share_f64_def total_in_range_f64_def
      others_position_f64_def our_in_range_position_f64_def our_total_position_f64_def
      annual_fees_f64_def daily_fees_f64_def fee_tier_f64_eq
      our_total_position_percent_f64_eq truediv_f64_pos
      Let_def if_True if_False sum.case
      mul_eval_1 sub_eval_2 div_eval_3 mul_eval_4 sub_eval_5 mul_eval_6
      add_eval_7 mul_eval_38 mul_eval_39 pos_eval_10 div_eval_11 mul_eval_12
      mul_eval_32 div_eval_26 pos_eval_15 div_eval_40 mul_eval_24)

lemma yield_f64_at_147000_0_100_total:
  "total_in_range_f64 (Finite 147000) (Finite 100) = (Finite 147000)"
  by (simp only: our_share_f64_def total_in_range_f64_def
      others_position_f64_def our_in_range_position_f64_def our_total_position_f64_def
      annual_fees_f64_def daily_fees_f64_def fee_tier_f64_eq
      our_total_position_percent_f64_eq truediv_f64_pos
      Let_def if_True if_False sum.case
      mul_eval_1 sub_eval_2 div_eval_3 mul_eval_4 sub_eval_5 mul_eval_6
      add_eval_7 mul_eval_38 mul_eval_39 pos_eval_10 div_eval_11 mul_eval_12
      mul_eval_32 div_eval_26 pos_eval_15 div_eval_40 mul_eval_24)

lemma yield_f64_at_147000_0_100_share:
  "our_share_f64 (Finite 147000) (Finite 100) = Inr (Finite (6124895493223875 / 9007199254740992))"
  by (simp only: our_share_f64_def total_in_range_f64_def
      others_position_f64_def our_in_range_position_f64_def our_total_position_f64_def
      annual_fees_f64_def daily_fees_f64_def fee_tier_f64_eq
      our_total_position_percent_f64_eq truediv_f64_pos
      Let_def if_True if_False sum.case
      mul_eval_1 sub_eval_2 div_eval_3 mul_eval_4 sub_eval_5 mul_eval_6
      add_eval_7 mul_eval_38 mul_eval_39 pos_eval_10 div_eval_11 mul_eval_12
      mul_eval_32 div_eval_26 pos_eval_15 div_eval_40 mul_eval_24)

lemma mul_eval_41:
  "mul_f64 (Finite (1 / 202402253307310618352495346718917307049556649764142118356901358027430339567995346891960383701437124495187077864316811911389808737385793476867013399940738509921517424276566361364466907742093216341239767678472745068562007483424692698618103355649159556340810056512358769552333414615230502532186327508646006263307707741093494784)) (Finite (3458764513820541 / 576460752303423488)) = (Finite 0)"
  unfolding mul_f64.simps
  by (rule rnd_FiniteI [where k = "- 1082" and n = "0"])
     (simp_all add: round_half_even_def)

lemma yield_f64_at_147000_5em324_100:
  "calculate_yield_f64 (Finite 147000) (Finite (1 / 202402253307310618352495346718917307049556649764142118356901358027430339567995346891960383701437124495187077864316811911389808737385793476867013399940738509921517424276566361364466907742093216341239767678472745068562007483424692698618103355649159556340810056512358769552333414615230502532186327508646006263307707741093494784)) (Finite 100) =
     Inr [(''our_total_position'', (Finite 99960)),
          (''our_in_range_position'', (Finite 99960)),
          (''our_out_of_range_position'', (Finite 0)),
          (''total_in_range'', (Finite 147000)),
          (''daily_fees'', (Finite 0)),
          (''annual_fees'', (Finite 0)),
          (''our_share'', (Finite 68)),
          (''our_annual_yield'', (Finite 0)),
          (''our_monthly_yield'', (Finite 0)),
          (''our_apr'', (Finite 0))]"
  by (simp only: calculate_yield_f64_def our_share_f64_def total_in_range_f64_def
      others_position_f64_def our_in_range_position_f64_def our_total_position_f64_def
      annual_fees_f64_def daily_fees_f64_def fee_tier_f64_eq
      our_total_position_percent_f64_eq truediv_f64_pos
      Let_def if_True if_False sum.case
      mul_eval_1 sub_eval_2 div_eval_3 mul_eval_4 sub_eval_5 mul_eval_6
      add_eval_7 mul_eval_41 mul_eval_39 pos_eval_10 div_eval_11 mul_eval_12
      mul_eval_32 div_eval_26 pos_eval_15 div_eval_40 mul_eval_24)

lemma yield_f64_at_147000_5em324_100_annual_fees:
  "annual_fees_f64 (Finite (1 / 202402253307310618352495346718917307049556649764142118356901358027430339567995346891960383701437124495187077864316811911389808737385793476867013399940738509921517424276566361364466907742093216341239767678472745068562007483424692698618103355649159556340810056512358769552333414615230502532186327508646006263307707741093494784)) = (Finite 0)"
  by (simp only: our_share_f64_def total_in_range_f64_def
      others_position_f64_def our_in_range_position_f64_def our_total_position_f64_def
      annual_fees_f64_def daily_fees_f64_def fee_tier_f64_eq
      our_total_position_percent_f64_eq truediv_f64_pos
      Let_def if_True if_False sum.case
      mul_eval_1 sub_eval_2 div_eval_3 mul_eval_4 sub_eval_5 mul_eval_6
      add_eval_7 mul_eval_41 mul_eval_39 pos_eval_10 div_eval_11 mul_eval_12
      mul_eval_32 div_eval_26 pos_eval_15 div_eval_40 mul_eval_24)

lemma yield_f64_at_147000_5em324_100_in_range:
  "our_in_range_position_f64 (Finite 147000) (Finite 100) = (Finite 99960)"
  by (simp only: our_share_f64_def total_in_range_f64_def
      others_position_f64_def our_in_range_position_f64_def our_total_position_f64_def
      annual_fees_f64_def daily_fees_f64_def fee_tier_f64_eq
      our_total_position_percent_f64_eq truediv_f64_pos
      Let_def if_True if_False sum.case
      mul_eval_1 sub_eval_2 div_eval_3 mul_eval_4 sub_eval_5 mul_eval_6
      add_eval_7 mul_eval_41 mul_eval_39 pos_eval_10 div_eval_11 mul_eval_12
      mul_eval_32 div_eval_26 pos_eval_15 div_eval_40 mul_eval_24)

lemma yield_f64_at_147000_5em324_100_total:
  "total_in_range_f64 (Finite 147000) (Finite 100) = (Finite 147000)"
  by (simp only: our_share_f64_def total_in_range_f64_def
      others_position_f64_def our_in_range_position_f64_def our_total_position_f64_def
      annual_fees_f64_def daily_fees_f64_def fee_tier_f64_eq
      our_total_position_percent_f64_eq truediv_f64_pos
      Let_def if_True if_False sum.case
      mul_eval_1 sub_eval_2 div_eval_3 mul_eval_4 sub_eval_5 mul_eval_6
      add_eval_7 mul_eval_41 mul_eval_39 pos_eval_10 div_eval_11 mul_eval_12
      mul_eval_32 div_eval_26 pos_eval_15 div_eval_40 mul_eval_24)

lemma yield_f64_at_147000_5em324_100_share:
  "our_share_f64 (Finite 147000) (Finite 100) = Inr (Finite (6124895493223875 / 9007199254740992))"
  by (simp only: our_share_f64_def total_in_range_f64_def
      others_position_f64_def our_in_range_position_f64_def our_total_position_f64_def
      annual_fees_f64_def daily_fees_f64_def fee_tier_f64_eq
      our_total_position_percent_f64_eq truediv_f64_pos
      Let_def if_True if_False sum.case
      mul_eval_1 sub_eval_2 div_eval_3 mul_eval_4 sub_eval_5 mul_eval_6
      add_eval_7 mul_eval_41 mul_eval_39 pos_eval_10 div_eval_11 mul_eval_12
      mul_eval_32 div_eval_26 pos_eval_15 div_eval_40 mul_eval_24)

lemma div_eval_42:
  "div_f64 (Finite (850966261636023 / 8796093022208)) (Finite 100) = (Finite (2178473629788219 / 2251799813685248))"
  unfolding div_f64.simps
  by (rule rnd_FiniteI [where k = "- 1" and n = "8713894519152876"])
     (simp_all add: round_half_even_def)

lemma mul_eval_43:
  "mul_f64 (Finite 99960) (Finite (2178473629788219 / 2251799813685248)) = (Finite (6645514649463817 / 68719476736))"
  unfolding mul_f64.simps
  by (rule rnd_FiniteI [where k = "16" and n = "6645514649463817"])
     (simp_all add: round_half_even_def)

lemma sub_eval_44:
  "sub_f64 (Finite 99960) (Finite (6645514649463817 / 68719476736)) = (Finite (223684245066743 / 68719476736))"
  unfolding sub_f64_def neg_f64.simps add_f64.simps
  by (rule rnd_FiniteI [where k = "11" and n = "7157895842135776"])
     (simp_all add: round_half_even_def)

lemma add_eval_45:
  "add_f64 (Finite (6465128371322879 / 137438953472)) (Finite (6645514649463817 / 68719476736)) = (Finite (1234759854390657 / 8589934592))"
  unfolding add_f64.simps
  by (rule rnd_FiniteI [where k = "17" and n = "4939039417562628"])
     (simp_all add: round_half_even_def)

lemma pos_eval_46:
  "less_f64 (Finite 0) (Finite (1234759854390657 / 8589934592))"
  by simp

lemma div_eval_47:
  "div_f64 (Finite (6645514649463817 / 68719476736)) (Finite (1234759854390657 / 8589934592)) = (Finite (1514906784940177 / 2251799813685248))"
  unfolding div_f64.simps
  by (rule rnd_FiniteI [where k = "- 1" and n = "6059627139760708"])
     (simp_all add: round_half_even_def)

lemma mul_eval_48:
  "mul_f64 (Finite (1514906784940177 / 2251799813685248)) (Finite 100) = (Finite (4734083702938053 / 70368744177664))"
  unfolding mul_f64.simps
  by (rule rnd_FiniteI [where k = "6" and n = "4734083702938053"])
     (simp_all add: round_half_even_def)

lemma mul_eval_49:
  "mul_f64 (Finite 219000) (Finite (1514906784940177 / 2251799813685248)) = (Finite (5062325834684735 / 34359738368))"
  unfolding mul_f64.simps
  by (rule rnd_FiniteI [where k = "17" and n = "5062325834684735"])
     (simp_all add: round_half_even_def)

lemma div_eval_50:
  "div_f64 (Finite (5062325834684735 / 34359738368)) (Finite 12) = (Finite (6749767779579647 / 549755813888))"
  unfolding div_f64.simps
  by (rule rnd_FiniteI [where k = "13" and n = "6749767779579647"])
     (simp_all add: round_half_even_def)

lemma pos_eval_51:
  "less_f64 (Finite 0) (Finite (6645514649463817 / 68719476736))"
  by simp

lemma div_eval_52:
  "div_f64 (Finite (5062325834684735 / 34359738368)) (Finite (6645514649463817 / 68719476736)) = (Finite (6861376415610997 / 4503599627370496))"
  unfolding div_f64.simps
  by (rule rnd_FiniteI [where k = "0" and n = "6861376415610997"])
     (simp_all add: round_half_even_def)

lemma mul_eval_53:
  "mul_f64 (Finite (6861376415610997 / 4503599627370496)) (Finite 100) = (Finite (5360450324696091 / 35184372088832))"
  unfolding mul_f64.simps
  by (rule rnd_FiniteI [where k = "7" and n = "5360450324696091"])
     (simp_all add: round_half_even_def)


lemma yield_f64_at_147000_100000_96a_annual_fees:
  "annual_fees_f64 (Finite 100000) = (Finite 219000)"
  by (simp only: our_share_f64_def total_in_range_f64_def
      others_position_f64_def our_in_range_position_f64_def our_total_position_f64_def
      annual_fees_f64_def daily_fees_f64_def fee_tier_f64_eq
      our_total_position_percent_f64_eq truediv_f64_pos
      Let_def if_True if_False sum.case
      mul_eval_1 sub_eval_2 div_eval_42 mul_eval_43 sub_eval_44 mul_eval_6
      add_eval_45 mul_eval_8 mul_eval_9 pos_eval_46 div_eval_47 mul_eval_48
      mul_eval_49 div_eval_50 pos_eval_51 div_eval_52 mul_eval_53)

lemma yield_f64_at_147000_100000_96a_in_range:
  "our_in_range_position_f64 (Finite 147000) (Finite (850966261636023 / 8796093022208)) = (Finite (6645514649463817 / 68719476736))"
  by (simp only: our_share_f64_def total_in_range_f64_def
      others_position_f64_def our_in_range_position_f64_def our_total_position_f64_def
      annual_fees_f64_def daily_fees_f64_def fee_tier_f64_eq
      our_total_position_percent_f64_eq truediv_f64_pos
      Let_def if_True if_False sum.case
      mul_eval_1 sub_eval_2 div_eval_42 mul_eval_43 sub_eval_44 mul_eval_6
      add_eval_45 mul_eval_8 mul_eval_9 pos_eval_46 div_eval_47 mul_eval_48
      mul_eval_49 div_eval_50 pos_eval_51 div_eval_52 mul_eval_53)


lemma yield_f64_at_147000_100000_96a_share:
  "our_share_f64 (Finite 147000) (Finite (850966261636023 / 8796093022208)) = Inr (Finite (1514906784940177 / 2251799813685248))"
  by (simp only: our_share_f64_def total_in_range_f64_def
      others_position_f64_def our_in_range_position_f64_def our_total_position_f64_def
      annual_fees_f64_def daily_fees_f64_def fee_tier_f64_eq
      our_total_position_percent_f64_eq truediv_f64_pos
      Let_def if_True if_False sum.case
      mul_eval_1 sub_eval_2 div_eval_42 mul_eval_43 sub_eval_44 mul_eval_6
      add_eval_45 mul_eval_8 mul_eval_9 pos_eval_46 div_eval_47 mul_eval_48
      mul_eval_49 div_eval_50 pos_eval_51 div_eval_52 mul_eval_53)

lemma div_eval_54:
  "div_f64 (Finite (6807730093088185 / 70368744177664)) (Finite 100) = (Finite (8713894519152877 / 9007199254740992))"
  unfolding div_f64.simps
  by (rule rnd_FiniteI [where k = "- 1" and n = "8713894519152877"])
     (simp_all add: round_half_even_def)

lemma mul_eval_55:
  "mul_f64 (Finite 99960) (Finite (8713894519152877 / 9007199254740992)) = (Finite (3322757324731909 / 34359738368))"
  unfolding mul_f64.simps
  by (rule rnd_FiniteI [where k = "16" and n = "6645514649463818"])
     (simp_all add: round_half_even_def)

lemma sub_eval_56:
  "sub_f64 (Finite 99960) (Finite (3322757324731909 / 34359738368)) = (Finite (111842122533371 / 34359738368))"
  unfolding sub_f64_def neg_f64.simps add_f64.simps
  by (rule rnd_FiniteI [where k = "11" and n = "7157895842135744"])
     (simp_all add: round_half_even_def)

lemma add_eval_57:
  "add_f64 (Finite (6465128371322879 / 137438953472)) (Finite (3322757324731909 / 34359738368)) = (Finite (4939039417562629 / 34359738368))"
  unfolding add_f64.simps
  by (rule rnd_FiniteI [where k = "17" and n = "4939039417562629"])
     (simp_all add: round_half_even_def)

lemma pos_eval_58:
  "less_f64 (Finite 0) (Finite (4939039417562629 / 34359738368))"
  by simp

lemma div_eval_59:
  "div_f64 (Finite (3322757324731909 / 34359738368)) (Finite (4939039417562629 / 34359738368)) = (Finite (6059627139760707 / 9007199254740992))"
  unfolding div_f64.simps
  by (rule rnd_FiniteI [where k = "- 1" and n = "6059627139760707"])
     (simp_all add: round_half_even_def)

lemma mul_eval_60:
  "mul_f64 (Finite (6059627139760707 / 9007199254740992)) (Finite 100) = (Finite (1183520925734513 / 17592186044416))"
  unfolding mul_f64.simps
  by (rule rnd_FiniteI [where k = "6" and n = "4734083702938052"])
     (simp_all add: round_half_even_def)

lemma mul_eval_61:
  "mul_f64 (Finite 219000) (Finite (6059627139760707 / 9007199254740992)) = (Finite (2531162917342367 / 17179869184))"
  unfolding mul_f64.simps
  by (rule rnd_FiniteI [where k = "17" and n = "5062325834684734"])
     (simp_all add: round_half_even_def)

lemma div_eval_62:
  "div_f64 (Finite (2531162917342367 / 17179869184)) (Finite 12) = (Finite (6749767779579645 / 549755813888))"
  unfolding div_f64.simps
  by (rule rnd_FiniteI [where k = "13" and n = "6749767779579645"])
     (simp_all add: round_half_even_def)

lemma pos_eval_63:
  "less_f64 (Finite 0) (Finite (3322757324731909 / 34359738368))"
  by simp

lemma div_eval_64:
  "div_f64 (Finite (2531162917342367 / 17179869184)) (Finite (3322757324731909 / 34359738368)) = (Finite (6861376415610995 / 4503599627370496))"
  unfolding div_f64.simps
  by (rule rnd_FiniteI [where k = "0" and n = "6861376415610995"])
     (simp_all add: round_half_even_def)

lemma mul_eval_65:
  "mul_f64 (Finite (6861376415610995 / 4503599627370496)) (Finite 100) = (Finite (2680225162348045 / 17592186044416))"
  unfolding mul_f64.simps
  by (rule rnd_FiniteI [where k = "7" and n = "5360450324696090"])
     (simp_all add: round_half_even_def)


lemma yield_f64_at_147000_100000_96b_annual_fees:
  "annual_fees_f64 (Finite 100000) = (Finite 219000)"
  by (simp only: our_share_f64_def total_in_range_f64_def
      others_position_f64_def our_in_range_position_f64_def our_total_position_f64_def
      annual_fees_f64_def daily_fees_f64_def fee_tier_f64_eq
      our_total_position_percent_f64_eq truediv_f64_pos
      Let_def if_True if_False sum.case
      mul_eval_1 sub_eval_2 div_eval_54 mul_eval_55 sub_eval_56 mul_eval_6
      add_eval_57 mul_eval_8 mul_eval_9 pos_eval_58 div_eval_59 mul_eval_60
      mul_eval_61 div_eval_62 pos_eval_63 div_eval_64 mul_eval_65)

lemma yield_f64_at_147000_100000_96b_in_range:
  "our_in_range_position_f64 (Finite 147000) (Finite (6807730093088185 / 70368744177664)) = (Finite (3322757324731909 / 34359738368))"
  by (simp only: our_share_f64_def total_in_range_f64_def
      others_position_f64_def our_in_range_position_f64_def our_total_position_f64_def
      annual_fees_f64_def daily_fees_f64_def fee_tier_f64_eq
      our_total_position_percent_f64_eq truediv_f64_pos
      Let_def if_True if_False sum.case
      mul_eval_1 sub_eval_2 div_eval_54 mul_eval_55 sub_eval_56 mul_eval_6
      add_eval_57 mul_eval_8 mul_eval_9 pos_eval_58 div_eval_59 mul_eval_60
      mul_eval_61 div_eval_62 pos_eval_63 div_eval_64 mul_eval_65)

lemma yield_f64_at_147000_100000_96b_total:
  "total_in_range_f64 (Finite 147000) (Finite (6807730093088185 / 70368744177664)) = (Finite (4939039417562629 / 34359738368))"
  by (simp only: our_share_f64_def total_in_range_f64_def
      others_position_f64_def our_in_range_position_f64_def our_total_position_f64_def
      annual_fees_f64_def daily_fees_f64_def fee_tier_f64_eq
      our_total_position_percent_f64_eq truediv_f64_pos
      Let_def if_True if_False sum.case
      mul_eval_1 sub_eval_2 div_eval_54 mul_eval_55 sub_eval_56 mul_eval_6
      add_eval_57 mul_eval_8 mul_eval_9 pos_eval_58 div_eval_59 mul_eval_60
      mul_eval_61 div_eval_62 pos_eval_63 div_eval_64 mul_eval_65)

lemma yield_f64_at_147000_100000_96b_share:
  "our_share_f64 (Finite 147000) (Finite (6807730093088185 / 70368744177664)) = Inr (Finite (6059627139760707 / 9007199254740992))"
  by (simp only: our_share_f64_def total_in_range_f64_def
      others_position_f64_def our_in_range_position_f64_def our_total_position_f64_def
      annual_fees_f64_def daily_fees_f64_def fee_tier_f64_eq
      our_total_position_percent_f64_eq truediv_f64_pos
      Let_def if_True if_False sum.case
      mul_eval_1 sub_eval_2 div_eval_54 mul_eval_55 sub_eval_56 mul_eval_6
      add_eval_57 mul_eval_8 mul_eval_9 pos_eval_58 div_eval_59 mul_eval_60
      mul_eval_61 div_eval_62 pos_eval_63 div_eval_64 mul_eval_65)

lemma div_eval_66:
  "div_f64 (Finite (2945438209471749 / 35184372088832)) (Finite 100) = (Finite (7540321816247677 / 9007199254740992))"
  unfolding div_f64.simps
  by (rule rnd_FiniteI [where k = "- 1" and n = "7540321816247677"])
     (simp_all add: round_half_even_def)

lemma mul_eval_67:
  "mul_f64 (Finite 99960) (Finite (7540321816247677 / 9007199254740992)) = (Finite (359406742454585 / 4294967296))"
  unfolding mul_f64.simps
  by (rule rnd_FiniteI [where k = "16" and n = "5750507879273360"])
     (simp_all add: round_half_even_def)

lemma sub_eval_68:
  "sub_f64 (Finite 99960) (Finite (359406742454585 / 4294967296)) = (Finite (69918188453575 / 4294967296))"
  unfolding sub_f64_def neg_f64.simps add_f64.simps
  by (rule rnd_FiniteI [where k = "13" and n = "8949528122057600"])
     (simp_all add: round_half_even_def)

lemma add_eval_69:
  "add_f64 (Finite (6465128371322879 / 137438953472)) (Finite (359406742454585 / 4294967296)) = (Finite (561442004058425 / 4294967296))"
  unfolding add_f64.simps
  by (rule rnd_FiniteI [where k = "16" and n = "8983072064934800"])
     (simp_all add: round_half_even_def)

lemma pos_eval_70:
  "less_f64 (Finite 0) (Finite (561442004058425 / 4294967296))"
  by simp

lemma div_eval_71:
  "div_f64 (Finite (359406742454585 / 4294967296)) (Finite (561442004058425 / 4294967296)) = (Finite (5765952884510133 / 9007199254740992))"
  unfolding div_f64.simps
  by (rule rnd_FiniteI [where k = "- 1" and n = "5765952884510133"])
     (simp_all add: round_half_even_def)

lemma mul_eval_72:
  "mul_f64 (Finite (5765952884510133 / 9007199254740992)) (Finite 100) = (Finite (4504650691023541 / 70368744177664))"
  unfolding mul_f64.simps
  by (rule rnd_FiniteI [where k = "6" and n = "4504650691023541"])
     (simp_all add: round_half_even_def)

lemma mul_eval_73:
  "mul_f64 (Finite 219000) (Finite (5765952884510133 / 9007199254740992)) = (Finite (4816984869795681 / 34359738368))"
  unfolding mul_f64.simps
  by (rule rnd_FiniteI [where k = "17" and n = "4816984869795681"])
     (simp_all add: round_half_even_def)

lemma div_eval_74:
  "div_f64 (Finite (4816984869795681 / 34359738368)) (Finite 12) = (Finite (1605661623265227 / 137438953472))"
  unfolding div_f64.simps
  by (rule rnd_FiniteI [where k = "13" and n = "6422646493060908"])
     (simp_all add: round_half_even_def)

lemma pos_eval_75:
  "less_f64 (Finite 0) (Finite (359406742454585 / 4294967296))"
  by simp

lemma div_eval_76:
  "div_f64 (Finite (4816984869795681 / 34359738368)) (Finite (359406742454585 / 4294967296)) = (Finite (7544993144988923 / 4503599627370496))"
  unfolding div_f64.simps
  by (rule rnd_FiniteI [where k = "0" and n = "7544993144988923"])
     (simp_all add: round_half_even_def)

lemma mul_eval_77:
  "mul_f64 (Finite (7544993144988923 / 4503599627370496)) (Finite 100) = (Finite (1473631473630649 / 8796093022208))"
  unfolding mul_f64.simps
  by (rule rnd_FiniteI [where k = "7" and n = "5894525894522596"])
     (simp_all add: round_half_even_def)


lemma yield_f64_at_147000_100000_83a_annual_fees:
  "annual_fees_f64 (Finite 100000) = (Finite 219000)"
  by (simp only: our_share_f64_def total_in_range_f64_def
      others_position_f64_def our_in_range_position_f64_def our_total_position_f64_def
      annual_fees_f64_def daily_fees_f64_def fee_tier_f64_eq
      our_total_position_percent_f64_eq truediv_f64_pos
      Let_def if_True if_False sum.case
      mul_eval_1 sub_eval_2 div_eval_66 mul_eval_67 sub_eval_68 mul_eval_6
      add_eval_69 mul_eval_8 mul_eval_9 pos_eval_70 div_eval_71 mul_eval_72
      mul_eval_73 div_eval_74 pos_eval_75 div_eval_76 mul_eval_77)

lemma yield_f64_at_147000_100000_83a_in_range:
  "our_in_range_position_f64 (Finite 147000) (Finite (2945438209471749 / 35184372088832)) = (Finite (359406742454585 / 4294967296))"
  by (simp only: our_share_f64_def total_in_range_f64_def
      others_position_f64_def our_in_range_position_f64_def our_total_position_f64_def
      annual_fees_f64_def daily_fees_f64_def fee_tier_f64_eq
      our_total_position_percent_f64_eq truediv_f64_pos
      Let_def if_True if_False sum.case
      mul_eval_1 sub_eval_2 div_eval_66 mul_eval_67 sub_eval_68 mul_eval_6
      add_eval_69 mul_eval_8 mul_eval_9 pos_eval_70 div_eval_71 mul_eval_72
      mul_eval_73 div_eval_74 pos_eval_75 div_eval_76 mul_eval_77)

lemma yield_f64_at_147000_100000_83a_total:
  "total_in_range_f64 (Finite 147000) (Finite (2945438209471749 / 35184372088832)) = (Finite (561442004058425 / 4294967296))"
  by (simp only: our_share_f64_def total_in_range_f64_def
      others_position_f64_def our_in_range_position_f64_def our_total_position_f64_def
      annual_fees_f64_def daily_fees_f64_def fee_tier_f64_eq
      our_total_position_percent_f64_eq truediv_f64_pos
      Let_def if_True if_False sum.case
      mul_eval_1 sub_eval_2 div_eval_66 mul_eval_67 sub_eval_68 mul_eval_6
      add_eval_69 mul_eval_8 mul_eval_9 pos_eval_70 div_eval_71 mul_eval_72
      mul_eval_73 div_eval_74 pos_eval_75 div_eval_76 mul_eval_77)

lemma yield_f64_at_147000_100000_83a_share:
  "our_share_f64 (Finite 147000) (Finite (2945438209471749 / 35184372088832)) = Inr (Finite (5765952884510133 / 9007199254740992))"
  by (simp only: our_share_f64_def total_in_range_f64_def
      others_position_f64_def our_in_range_position_f64_def our_total_position_f64_def
      annual_fees_f64_def daily_fees_f64_def fee_tier_f64_eq
      our_total_position_percent_f64_eq truediv_f64_pos
      Let_def if_True if_False sum.case
      mul_eval_1 sub_eval_2 div_eval_66 mul_eval_67 sub_eval_68 mul_eval_6
      add_eval_69 mul_eval_8 mul_eval_9 pos_eval_70 div_eval_71 mul_eval_72
      mul_eval_73 div_eval_74 pos_eval_75 div_eval_76 mul_eval_77)

lemma div_eval_78:
  "div_f64 (Finite (5890876418943499 / 70368744177664)) (Finite 100) = (Finite (7540321816247679 / 9007199254740992))"
  unfolding div_f64.simps
  by (rule rnd_FiniteI [where k = "- 1" and n = "7540321816247679"])
     (simp_all add: round_half_even_def)

lemma mul_eval_79:
  "mul_f64 (Finite 99960) (Finite (7540321816247679 / 9007199254740992)) = (Finite (5750507879273361 / 68719476736))"
  unfolding mul_f64.simps
  by (rule rnd_FiniteI [where k = "16" and n = "5750507879273361"])
     (simp_all add: round_half_even_def)

lemma sub_eval_80:
  "sub_f64 (Finite 99960) (Finite (5750507879273361 / 68719476736)) = (Finite (1118691015257199 / 68719476736))"
  unfolding sub_f64_def neg_f64.simps add_f64.simps
  by (rule rnd_FiniteI [where k = "13" and n = "8949528122057592"])
     (simp_all add: round_half_even_def)

lemma add_eval_81:
  "add_f64 (Finite (6465128371322879 / 137438953472)) (Finite (5750507879273361 / 68719476736)) = (Finite (561442004058425 / 4294967296))"
  unfolding add_f64.simps
  by (rule rnd_FiniteI [where k = "16" and n = "8983072064934800"])
     (simp_all add: round_half_even_def)

lemma div_eval_82:
  "div_f64 (Finite (5750507879273361 / 68719476736)) (Finite (561442004058425 / 4294967296)) = (Finite (2882976442255067 / 4503599627370496))"
  unfolding div_f64.simps
  by (rule rnd_FiniteI [where k = "- 1" and n = "5765952884510134"])
     (simp_all add: round_half_even_def)

lemma mul_eval_83:
  "mul_f64 (Finite (2882976442255067 / 4503599627370496)) (Finite 100) = (Finite (2252325345511771 / 35184372088832))"
  unfolding mul_f64.simps
  by (rule rnd_FiniteI [where k = "6" and n = "4504650691023542"])
     (simp_all add: round_half_even_def)

lemma mul_eval_84:
  "mul_f64 (Finite 219000) (Finite (2882976442255067 / 4503599627370496)) = (Finite (2408492434897841 / 17179869184))"
  unfolding mul_f64.simps
  by (rule rnd_FiniteI [where k = "17" and n = "4816984869795682"])
     (simp_all add: round_half_even_def)

lemma div_eval_85:
  "div_f64 (Finite (2408492434897841 / 17179869184)) (Finite 12) = (Finite (6422646493060909 / 549755813888))"
  unfolding div_f64.simps
  by (rule rnd_FiniteI [where k = "13" and n = "6422646493060909"])
     (simp_all add: round_half_even_def)

lemma pos_eval_86:
  "less_f64 (Finite 0) (Finite (5750507879273361 / 68719476736))"
  by simp

lemma div_eval_87:
  "div_f64 (Finite (2408492434897841 / 17179869184)) (Finite (5750507879273361 / 68719476736)) = (Finite (1886248286247231 / 1125899906842624))"
  unfolding div_f64.simps
  by (rule rnd_FiniteI [where k = "0" and n = "7544993144988924"])
     (simp_all add: round_half_even_def)

lemma mul_eval_88:
  "mul_f64 (Finite (1886248286247231 / 1125899906842624)) (Finite 100) = (Finite (5894525894522597 / 35184372088832))"
  unfolding mul_f64.simps
  by (rule rnd_FiniteI [where k = "7" and n = "5894525894522597"])
     (simp_all add: round_half_even_def)


lemma yield_f64_at_147000_100000_83b_annual_fees:
  "annual_fees_f64 (Finite 100000) = (Finite 219000)"
  by (simp only: our_share_f64_def total_in_range_f64_def
      others_position_f64_def our_in_range_position_f64_def our_total_position_f64_def
      annual_fees_f64_def daily_fees_f64_def fee_tier_f64_eq
      our_total_position_percent_f64_eq truediv_f64_pos
      Let_def if_True if_False sum.case
      mul_eval_1 sub_eval_2 div_eval_78 mul_eval_79 sub_eval_80 mul_eval_6
      add_eval_81 mul_eval_8 mul_eval_9 pos_eval_70 div_eval_82 mul_eval_83
      mul_eval_84 div_eval_85 pos_eval_86 div_eval_87 mul_eval_88)

lemma yield_f64_at_147000_100000_83b_in_range:
  "our_in_range_position_f64 (Finite 147000) (Finite (5890876418943499 / 70368744177664)) = (Finite (5750507879273361 / 68719476736))"
  by (simp only: our_share_f64_def total_in_range_f64_def
      others_position_f64_def our_in_range_position_f64_def our_total_position_f64_def
      annual_fees_f64_def daily_fees_f64_def fee_tier_f64_eq
      our_total_position_percent_f64_eq truediv_f64_pos
      Let_def if_True if_False sum.case
      mul_eval_1 sub_eval_2 div_eval_78 mul_eval_79 sub_eval_80 mul_eval_6
      add_eval_81 mul_eval_8 mul_eval_9 pos_eval_70 div_eval_82 mul_eval_83
      mul_eval_84 div_eval_85 pos_eval_86 div_eval_87 mul_eval_88)

lemma yield_f64_at_147000_100000_83b_total:
  "total_in_range_f64 (Finite 147000) (Finite (5890876418943499 / 70368744177664)) = (Finite (561442004058425 / 4294967296))"
  by (simp only: our_share_f64_def total_in_range_f64_def
      others_position_f64_def our_in_range_position_f64_def our_total_position_f64_def
      annual_fees_f64_def daily_fees_f64_def fee_tier_f64_eq
      our_total_position_percent_f64_eq truediv_f64_pos
      Let_def if_True if_False sum.case
      mul_eval_1 sub_eval_2 div_eval_78 mul_eval_79 sub_eval_80 mul_eval_6
      add_eval_81 mul_eval_8 mul_eval_9 pos_eval_70 div_eval_82 mul_eval_83
      mul_eval_84 div_eval_85 pos_eval_86 div_eval_87 mul_eval_88)

lemma yield_f64_at_147000_100000_83b_share:
  "our_share_f64 (Finite 147000) (Finite (5890876418943499 / 70368744177664)) = Inr (Finite (2882976442255067 / 4503599627370496))"
  by (simp only: our_share_f64_def total_in_range_f64_def
      others_position_f64_def our_in_range_position_f64_def our_total_position_f64_def
      annual_fees_f64_def daily_fees_f64_def fee_tier_f64_eq
      our_total_position_percent_f64_eq truediv_f64_pos
      Let_def if_True if_False sum.case
      mul_eval_1 sub_eval_2 div_eval_78 mul_eval_79 sub_eval_80 mul_eval_6
      add_eval_81 mul_eval_8 mul_eval_9 pos_eval_70 div_eval_82 mul_eval_83
      mul_eval_84 div_eval_85 pos_eval_86 div_eval_87 mul_eval_88)

lemma mul_eval_89:
  "mul_f64 (Finite 50000) (Finite (3458764513820541 / 576460752303423488)) = (Finite 300)"
  unfolding mul_f64.simps
  by (rule rnd_FiniteI [where k = "8" and n = "5277655813324800"])
     (simp_all add: round_half_even_def)

lemma mul_eval_90:
  "mul_f64 (Finite 300) (Finite 365) = (Finite 109500)"
  unfolding mul_f64.simps
  by (rule rnd_FiniteI [where k = "16" and n = "7524782702592000"])
     (simp_all add: round_half_even_def)

lemma mul_eval_91:
  "mul_f64 (Finite 109500) (Finite (6124895493223875 / 9007199254740992)) = (Finite 74460)"
  unfolding mul_f64.simps
  by (rule rnd_FiniteI [where k = "16" and n = "5116852237762560"])
     (simp_all add: round_half_even_def)

lemma div_eval_92:
  "div_f64 (Finite 74460) (Finite 12) = (Finite 6205)"
  unfolding div_f64.simps
  by (rule rnd_FiniteI [where k = "12" and n = "6822469650350080"])
     (simp_all add: round_half_even_def)

lemma div_eval_93:
  "div_f64 (Finite 74460) (Finite 99960) = (Finite (3354722171408635 / 4503599627370496))"
  unfolding div_f64.simps
  by (rule rnd_FiniteI [where k = "- 1" and n = "6709444342817270"])
     (simp_all add: round_half_even_def)

lemma mul_eval_94:
  "mul_f64 (Finite (3354722171408635 / 4503599627370496)) (Finite 100) = (Finite (655219174103249 / 8796093022208))"
  unfolding mul_f64.simps
  by (rule rnd_FiniteI [where k = "6" and n = "5241753392825992"])
     (simp_all add: round_half_even_def)

lemma yield_f64_at_147000_50000_100:
  "calculate_yield_f64 (Finite 147000) (Finite 50000) (Finite 100) =
     Inr [(''our_total_position'', (Finite 99960)),
          (''our_in_range_position'', (Finite 99960)),
          (''our_out_of_range_position'', (Finite 0)),
          (''total_in_range'', (Finite 147000)),
          (''daily_fees'', (Finite 300)),
          (''annual_fees'', (Finite 109500)),
          (''our_share'', (Finite 68)),
          (''our_annual_yield'', (Finite 74460)),
          (''our_monthly_yield'', (Finite 6205)),
          (''our_apr'', (Finite (655219174103249 / 8796093022208)))]"
  by (simp only: calculate_yield_f64_def our_share_f64_def total_in_range_f64_def
      others_position_f64_def our_in_range_position_f64_def our_total_position_f64_def
      annual_fees_f64_def daily_fees_f64_def fee_tier_f64_eq
      our_total_position_percent_f64_eq truediv_f64_pos
      Let_def if_True if_False sum.case
      mul_eval_1 sub_eval_2 div_eval_3 mul_eval_4 sub_eval_5 mul_eval_6
      add_eval_7 mul_eval_89 mul_eval_90 pos_eval_10 div_eval_11 mul_eval_12
      mul_eval_91 div_eval_92 pos_eval_15 div_eval_93 mul_eval_94)

lemma yield_f64_at_147000_50000_100_annual_fees:
  "annual_fees_f64 (Finite 50000) = (Finite 109500)"
  by (simp only: our_share_f64_def total_in_range_f64_def
      others_position_f64_def our_in_range_position_f64_def our_total_position_f64_def
      annual_fees_f64_def daily_fees_f64_def fee_tier_f64_eq
      our_total_position_percent_f64_eq truediv_f64_pos
      Let_def if_True if_False sum.case
      mul_eval_1 sub_eval_2 div_eval_3 mul_eval_4 sub_eval_5 mul_eval_6
      add_eval_7 mul_eval_89 mul_eval_90 pos_eval_10 div_eval_11 mul_eval_12
      mul_eval_91 div_eval_92 pos_eval_15 div_eval_93 mul_eval_94)

lemma yield_f64_at_147000_50000_100_in_range:
  "our_in_range_position_f64 (Finite 147000) (Finite 100) = (Finite 99960)"
  by (simp only: our_share_f64_def total_in_range_f64_def
      others_position_f64_def our_in_range_position_f64_def our_total_position_f64_def
      annual_fees_f64_def daily_fees_f64_def fee_tier_f64_eq
      our_total_position_percent_f64_eq truediv_f64_pos
      Let_def if_True if_False sum.case
      mul_eval_1 sub_eval_2 div_eval_3 mul_eval_4 sub_eval_5 mul_eval_6
      add_eval_7 mul_eval_89 mul_eval_90 pos_eval_10 div_eval_11 mul_eval_12
      mul_eval_91 div_eval_92 pos_eval_15 div_eval_93 mul_eval_94)

lemma yield_f64_at_147000_50000_100_total:
  "total_in_range_f64 (Finite 147000) (Finite 100) = (Finite 147000)"
  by (simp only: our_share_f64_def total_in_range_f64_def
      others_position_f64_def our_in_range_position_f64_def our_total_position_f64_def
      annual_fees_f64_def daily_fees_f64_def fee_tier_f64_eq
      our_total_position_percent_f64_eq truediv_f64_pos
      Let_def if_True if_False sum.case
      mul_eval_1 sub_eval_2 div_eval_3 mul_eval_4 sub_eval_5 mul_eval_6
      add_eval_7 mul_eval_89 mul_eval_90 pos_eval_10 div_eval_11 mul_eval_12
      mul_eval_91 div_eval_92 pos_eval_15 div_eval_93 mul_eval_94)

lemma yield_f64_at_147000_50000_100_share:
  "our_share_f64 (Finite 147000) (Finite 100) = Inr (Finite (6124895493223875 / 9007199254740992))"
  by (simp only: our_share_f64_def total_in_range_f64_def
      others_position_f64_def our_in_range_position_f64_def our_total_position_f64_def
      annual_fees_f64_def daily_fees_f64_def fee_tier_f64_eq
      our_total_position_percent_f64_eq truediv_f64_pos
      Let_def if_True if_False sum.case
      mul_eval_1 sub_eval_2 div_eval_3 mul_eval_4 sub_eval_5 mul_eval_6
      add_eval_7 mul_eval_89 mul_eval_90 pos_eval_10 div_eval_11 mul_eval_12
      mul_eval_91 div_eval_92 pos_eval_15 div_eval_93 mul_eval_94)

lemma mul_eval_95:
  "mul_f64 (Finite 99960) (Finite (1 / 2)) = (Finite 49980)"
  unfolding mul_f64.simps
  by (rule rnd_FiniteI [where k = "15" and n = "6869198894530560"])
     (simp_all add: round_half_even_def)

lemma sub_eval_96:
  "sub_f64 (Finite 99960) (Finite 49980) = (Finite 49980)"
  unfolding sub_f64_def neg_f64.simps add_f64.simps
  by (rule rnd_FiniteI [where k = "15" and n = "6869198894530560"])
     (simp_all add: round_half_even_def)

lemma add_eval_97:
  "add_f64 (Finite (6465128371322879 / 137438953472)) (Finite 49980) = (Finite 97020)"
  unfolding add_f64.simps
  by (rule rnd_FiniteI [where k = "16" and n = "6667163632926720"])
     (simp_all add: round_half_even_def)

lemma pos_eval_98:
  "less_f64 (Finite 0) (Finite 97020)"
  by simp

lemma div_eval_99:
  "div_f64 (Finite 49980) (Finite 97020) = (Finite (1160018085837855 / 2251799813685248))"
  unfolding div_f64.simps
  by (rule rnd_FiniteI [where k = "- 1" and n = "4640072343351420"])
     (simp_all add: round_half_even_def)

lemma mul_eval_100:
  "mul_f64 (Finite (1160018085837855 / 2251799813685248)) (Finite 100) = (Finite (3625056518243297 / 70368744177664))"
  unfolding mul_f64.simps
  by (rule rnd_FiniteI [where k = "5" and n = "7250113036486594"])
     (simp_all add: round_half_even_def)

lemma mul_eval_101:
  "mul_f64 (Finite 219000) (Finite (1160018085837855 / 2251799813685248)) = (Finite (7752806420852363 / 68719476736))"
  unfolding mul_f64.simps
  by (rule rnd_FiniteI [where k = "16" and n = "7752806420852363"])
     (simp_all add: round_half_even_def)

lemma div_eval_102:
  "div_f64 (Finite (7752806420852363 / 68719476736)) (Finite 12) = (Finite (5168537613901575 / 549755813888))"
  unfolding div_f64.simps
  by (rule rnd_FiniteI [where k = "13" and n = "5168537613901575"])
     (simp_all add: round_half_even_def)

lemma pos_eval_103:
  "less_f64 (Finite 0) (Finite 49980)"
  by simp

lemma div_eval_104:
  "div_f64 (Finite (7752806420852363 / 68719476736)) (Finite 49980) = (Finite (5082912380922173 / 2251799813685248))"
  unfolding div_f64.simps
  by (rule rnd_FiniteI [where k = "1" and n = "5082912380922173"])
     (simp_all add: round_half_even_def)

lemma mul_eval_105:
  "mul_f64 (Finite (5082912380922173 / 2251799813685248)) (Finite 100) = (Finite (7942050595190895 / 35184372088832))"
  unfolding mul_f64.simps
  by (rule rnd_FiniteI [where k = "7" and n = "7942050595190895"])
     (simp_all add: round_half_even_def)

lemma yield_f64_at_147000_100000_50:
  "calculate_yield_f64 (Finite 147000) (Finite 100000) (Finite 50) =
     Inr [(''our_total_position'', (Finite 99960)),
          (''our_in_range_position'', (Finite 49980)),
          (''our_out_of_range_position'', (Finite 49980)),
          (''total_in_range'', (Finite 97020)),
          (''daily_fees'', (Finite 600)),
          (''annual_fees'', (Finite 219000)),
          (''our_share'', (Finite (3625056518243297 / 70368744177664))),
          (''our_annual_yield'', (Finite (7752806420852363 / 68719476736))),
          (''our_monthly_yield'', (Finite (5168537613901575 / 549755813888))),
          (''our_apr'', (Finite (7942050595190895 / 35184372088832)))]"
  by (simp only: calculate_yield_f64_def our_share_f64_def total_in_range_f64_def
      others_position_f64_def our_in_range_position_f64_def our_total_position_f64_def
      annual_fees_f64_def daily_fees_f64_def fee_tier_f64_eq
      our_total_position_percent_f64_eq truediv_f64_pos
      Let_def if_True if_False sum.case
      mul_eval_1 sub_eval_2 div_eval_33 mul_eval_95 sub_eval_96 mul_eval_6
      add_eval_97 mul_eval_8 mul_eval_9 pos_eval_98 div_eval_99 mul_eval_100
      mul_eval_101 div_eval_102 pos_eval_103 div_eval_104 mul_eval_105)

lemma yield_f64_at_147000_100000_50_annual_fees:
  "annual_fees_f64 (Finite 100000) = (Finite 219000)"
  by (simp only: our_share_f64_def total_in_range_f64_def
      others_position_f64_def our_in_range_position_f64_def our_total_position_f64_def
      annual_fees_f64_def daily_fees_f64_def fee_tier_f64_eq
      our_total_position_percent_f64_eq truediv_f64_pos
      Let_def if_True if_False sum.case
      mul_eval_1 sub_eval_2 div_eval_33 mul_eval_95 sub_eval_96 mul_eval_6
      add_eval_97 mul_eval_8 mul_eval_9 pos_eval_98 div_eval_99 mul_eval_100
      mul_eval_101 div_eval_102 pos_eval_103 div_eval_104 mul_eval_105)

lemma yield_f64_at_147000_100000_50_in_range:
  "our_in_range_position_f64 (Finite 147000) (Finite 50) = (Finite 49980)"
  by (simp only: our_share_f64_def total_in_range_f64_def
      others_position_f64_def our_in_range_position_f64_def our_total_position_f64_def
      annual_fees_f64_def daily_fees_f64_def fee_tier_f64_eq
      our_total_position_percent_f64_eq truediv_f64_pos
      Let_def if_True if_False sum.case
      mul_eval_1 sub_eval_2 div_eval_33 mul_eval_95 sub_eval_96 mul_eval_6
      add_eval_97 mul_eval_8 mul_eval_9 pos_eval_98 div_eval_99 mul_eval_100
      mul_eval_101 div_eval_102 pos_eval_103 div_eval_104 mul_eval_105)

lemma yield_f64_at_147000_100000_50_total:
  "total_in_range_f64 (Finite 147000) (Finite 50) = (Finite 97020)"
  by (simp only: our_share_f64_def total_in_range_f64_def
      others_position_f64_def our_in_range_position_f64_def our_total_position_f64_def
      annual_fees_f64_def daily_fees_f64_def fee_tier_f64_eq
      our_total_position_percent_f64_eq truediv_f64_pos
      Let_def if_True if_False sum.case
      mul_eval_1 sub_eval_2 div_eval_33 mul_eval_95 sub_eval_96 mul_eval_6
      add_eval_97 mul_eval_8 mul_eval_9 pos_eval_98 div_eval_99 mul_eval_100
      mul_eval_101 div_eval_102 pos_eval_103 div_eval_104 mul_eval_105)

lemma yield_f64_at_147000_100000_50_share:
  "our_share_f64 (Finite 147000) (Finite 50) = Inr (Finite (1160018085837855 / 2251799813685248))"
  by (simp only: our_share_f64_def total_in_range_f64_def
      others_position_f64_def our_in_range_position_f64_def our_total_position_f64_def
      annual_fees_f64_def daily_fees_f64_def fee_tier_f64_eq
      our_total_position_percent_f64_eq truediv_f64_pos
      Let_def if_True if_False sum.case
      mul_eval_1 sub_eval_2 div_eval_33 mul_eval_95 sub_eval_96 mul_eval_6
      add_eval_97 mul_eval_8 mul_eval_9 pos_eval_98 div_eval_99 mul_eval_100
      mul_eval_101 div_eval_102 pos_eval_103 div_eval_104 mul_eval_105)

lemma mul_eval_106:
  "mul_f64 (Finite (- 100)) (Finite (6124895493223875 / 9007199254740992)) = (Finite (- 68))"
  unfolding mul_f64.simps
  by (rule rnd_FiniteI [where k = "6" and n = "- 4785074604081152"])
     (simp_all add: round_half_even_def)

lemma div_eval_107:
  "div_f64 (Finite (- 10)) (Finite 100) = (Finite (- (3602879701896397 / 36028797018963968)))"
  unfolding div_f64.simps
  by (rule rnd_FiniteI [where k = "- 4" and n = "- 7205759403792794"])
     (simp_all add: round_half_even_def)

lemma mul_eval_108:
  "mul_f64 (Finite (- 68)) (Finite (- (3602879701896397 / 36028797018963968))) = (Finite (1914029841632461 / 281474976710656))"
  unfolding mul_f64.simps
  by (rule rnd_FiniteI [where k = "2" and n = "7656119366529844"])
     (simp_all add: round_half_even_def)

lemma sub_eval_109:
  "sub_f64 (Finite (- 68)) (Finite (1914029841632461 / 281474976710656)) = (Finite (- (5263582064489267 / 70368744177664)))"
  unfolding sub_f64_def neg_f64.simps add_f64.simps
  by (rule rnd_FiniteI [where k = "6" and n = "- 5263582064489267"])
     (simp_all add: round_half_even_def)

lemma mul_eval_110:
  "mul_f64 (Finite (- 100)) (Finite (2882303761517117 / 9007199254740992)) = (Finite (- (9007199254740991 / 281474976710656)))"
  unfolding mul_f64.simps
  by (rule rnd_FiniteI [where k = "4" and n = "- 9007199254740991"])
     (simp_all add: round_half_even_def)

lemma add_eval_111:
  "add_f64 (Finite (- (9007199254740991 / 281474976710656))) (Finite (1914029841632461 / 281474976710656)) = (Finite (- (3546584706554265 / 140737488355328)))"
  unfolding add_f64.simps
  by (rule rnd_FiniteI [where k = "4" and n = "- 7093169413108530"])
     (simp_all add: round_half_even_def)

lemma pos_eval_112:
  "\<not> less_f64 (Finite 0) (Finite (- (3546584706554265 / 140737488355328)))"
  by simp

lemma mul_eval_113:
  "mul_f64 (Finite 0) (Finite 0) = (Finite 0)"
  unfolding mul_f64.simps
  by (simp add: rnd_zero)

lemma pos_eval_114:
  "less_f64 (Finite 0) (Finite (1914029841632461 / 281474976710656))"
  by simp

lemma div_eval_115:
  "div_f64 (Finite 0) (Finite (1914029841632461 / 281474976710656)) = (Finite 0)"
  unfolding div_f64.simps
  by (simp add: rnd_zero)

lemma yield_f64_at_m100_0_m10:
  "calculate_yield_f64 (Finite (- 100)) (Finite 0) (Finite (- 10)) =
     Inr [(''our_total_position'', (Finite (- 68))),
          (''our_in_range_position'', (Finite (1914029841632461 / 281474976710656))),
          (''our_out_of_range_position'', (Finite (- (5263582064489267 / 70368744177664)))),
          (''total_in_range'', (Finite (- (3546584706554265 / 140737488355328)))),
          (''daily_fees'', (Finite 0)),
          (''annual_fees'', (Finite 0)),
          (''our_share'', (Finite 0)),
          (''our_annual_yield'', (Finite 0)),
          (''our_monthly_yield'', (Finite 0)),
          (''our_apr'', (Finite 0))]"
  by (simp only: calculate_yield_f64_def our_share_f64_def total_in_range_f64_def
      others_position_f64_def our_in_range_position_f64_def our_total_position_f64_def
      annual_fees_f64_def daily_fees_f64_def fee_tier_f64_eq
      our_total_position_percent_f64_eq truediv_f64_pos
      Let_def if_True if_False sum.case
      mul_eval_106 sub_eval_2 div_eval_107 mul_eval_108 sub_eval_109 mul_eval_110
      add_eval_111 mul_eval_38 mul_eval_39 pos_eval_112 mul_eval_24 mul_eval_113
      div_eval_26 pos_eval_114 div_eval_115)

lemma yield_f64_at_m100_0_m10_annual_fees:
  "annual_fees_f64 (Finite 0) = (Finite 0)"
  by (simp only: our_share_f64_def total_in_range_f64_def
      others_position_f64_def our_in_range_position_f64_def our_total_position_f64_def
      annual_fees_f64_def daily_fees_f64_def fee_tier_f64_eq
      our_total_position_percent_f64_eq truediv_f64_pos
      Let_def if_True if_False sum.case
      mul_eval_106 sub_eval_2 div_eval_107 mul_eval_108 sub_eval_109 mul_eval_110
      add_eval_111 mul_eval_38 mul_eval_39 pos_eval_112 mul_eval_24 mul_eval_113
      div_eval_26 pos_eval_114 div_eval_115)

lemma yield_f64_at_m100_0_m10_in_range:
  "our_in_range_position_f64 (Finite (- 100)) (Finite (- 10)) = (Finite (1914029841632461 / 281474976710656))"
  by (simp only: our_share_f64_def total_in_range_f64_def
      others_position_f64_def our_in_range_position_f64_def our_total_position_f64_def
      annual_fees_f64_def daily_fees_f64_def fee_tier_f64_eq
      our_total_position_percent_f64_eq truediv_f64_pos
      Let_def if_True if_False sum.case
      mul_eval_106 sub_eval_2 div_eval_107 mul_eval_108 sub_eval_109 mul_eval_110
      add_eval_111 mul_eval_38 mul_eval_39 pos_eval_112 mul_eval_24 mul_eval_113
      div_eval_26 pos_eval_114 div_eval_115)

lemma yield_f64_at_m100_0_m10_total:
  "total_in_range_f64 (Finite (- 100)) (Finite (- 10)) = (Finite (- (3546584706554265 / 140737488355328)))"
  by (simp only: our_share_f64_def total_in_range_f64_def
      others_position_f64_def our_in_range_position_f64_def our_total_position_f64_def
      annual_fees_f64_def daily_fees_f64_def fee_tier_f64_eq
      our_total_position_percent_f64_eq truediv_f64_pos
      Let_def if_True if_False sum.case
      mul_eval_106 sub_eval_2 div_eval_107 mul_eval_108 sub_eval_109 mul_eval_110
      add_eval_111 mul_eval_38 mul_eval_39 pos_eval_112 mul_eval_24 mul_eval_113
      div_eval_26 pos_eval_114 div_eval_115)

lemma yield_f64_at_m100_0_m10_share:
  "our_share_f64 (Finite (- 100)) (Finite (- 10)) = Inr (Finite 0)"
  by (simp only: our_share_f64_def total_in_range_f64_def
      others_position_f64_def our_in_range_position_f64_def our_total_position_f64_def
      annual_fees_f64_def daily_fees_f64_def fee_tier_f64_eq
      our_total_position_percent_f64_eq truediv_f64_pos
      Let_def if_True if_False sum.case
      mul_eval_106 sub_eval_2 div_eval_107 mul_eval_108 sub_eval_109 mul_eval_110
      add_eval_111 mul_eval_38 mul_eval_39 pos_eval_112 mul_eval_24 mul_eval_113
      div_eval_26 pos_eval_114 div_eval_115)

lemma div_eval_116:
  "div_f64 NaN (Finite (1914029841632461 / 281474976710656)) = NaN"
  by (simp add: inf_of_sign_def sub_f64_def)

lemma mul_eval_117:
  "mul_f64 NaN (Finite 100) = NaN"
  by (simp add: inf_of_sign_def sub_f64_def)

lemma yield_f64_at_m100_1e308_m10:
  "calculate_yield_f64 (Finite (- 100)) (Finite 100000000000000001097906362944045541740492309677311846336810682903157585404911491537163328978494688899061249669721172515611590283743140088328307009198146046031271664502933027185697489699588559043338384466165001178426897626212945177628091195786707458122783970171784415105291802893207873272974885715430223118336) (Finite (- 10)) =
     Inr [(''our_total_position'', (Finite (- 68))),
          (''our_in_range_position'', (Finite (1914029841632461 / 281474976710656))),
          (''our_out_of_range_position'', (Finite (- (5263582064489267 / 70368744177664)))),
          (''total_in_range'', (Finite (- (3546584706554265 / 140737488355328)))),
          (''daily_fees'', (Finite 600000000000000041514643594521869954429476336208545984201261155039452488724045691874188081577839284631131894139451804157162361475827507299487506852076765339123136457002148018714284214841530693316940432073342282766995128786796340949057730139335476554291671018871479247006366687684977968379122980823601512448)),
          (''annual_fees'', PInf),
          (''our_share'', (Finite 0)),
          (''our_annual_yield'', NaN),
          (''our_monthly_yield'', NaN),
          (''our_apr'', NaN)]"
  by (simp only: calculate_yield_f64_def our_share_f64_def total_in_range_f64_def
      others_position_f64_def our_in_range_position_f64_def our_total_position_f64_def
      annual_fees_f64_def daily_fees_f64_def fee_tier_f64_eq
      our_total_position_percent_f64_eq truediv_f64_pos
      Let_def if_True if_False sum.case
      mul_eval_106 sub_eval_2 div_eval_107 mul_eval_108 sub_eval_109 mul_eval_110
      add_eval_111 mul_eval_28 mul_eval_29 pos_eval_112 mul_eval_24 mul_eval_30
      div_eval_31 pos_eval_114 div_eval_116 mul_eval_117)

lemma yield_f64_at_m100_1e308_m10_annual_fees:
  "annual_fees_f64 (Finite 100000000000000001097906362944045541740492309677311846336810682903157585404911491537163328978494688899061249669721172515611590283743140088328307009198146046031271664502933027185697489699588559043338384466165001178426897626212945177628091195786707458122783970171784415105291802893207873272974885715430223118336) = PInf"
  by (simp only: our_share_f64_def total_in_range_f64_def
      others_position_f64_def our_in_range_position_f64_def our_total_position_f64_def
      annual_fees_f64_def daily_fees_f64_def fee_tier_f64_eq
      our_total_position_percent_f64_eq truediv_f64_pos
      Let_def if_True if_False sum.case
      mul_eval_106 sub_eval_2 div_eval_107 mul_eval_108 sub_eval_109 mul_eval_110
      add_eval_111 mul_eval_28 mul_eval_29 pos_eval_112 mul_eval_24 mul_eval_30
      div_eval_31 pos_eval_114 div_eval_116 mul_eval_117)

lemma yield_f64_at_m100_1e308_m10_in_range:
  "our_in_range_position_f64 (Finite (- 100)) (Finite (- 10)) = (Finite (1914029841632461 / 281474976710656))"
  by (simp only: our_share_f64_def total_in_range_f64_def
      others_position_f64_def our_in_range_position_f64_def our_total_position_f64_def
      annual_fees_f64_def daily_fees_f64_def fee_tier_f64_eq
      our_total_position_percent_f64_eq truediv_f64_pos
      Let_def if_True if_False sum.case
      mul_eval_106 sub_eval_2 div_eval_107 mul_eval_108 sub_eval_109 mul_eval_110
      add_eval_111 mul_eval_28 mul_eval_29 pos_eval_112 mul_eval_24 mul_eval_30
      div_eval_31 pos_eval_114 div_eval_116 mul_eval_117)

lemma yield_f64_at_m100_1e308_m10_total:
  "total_in_range_f64 (Finite (- 100)) (Finite (- 10)) = (Finite (- (3546584706554265 / 140737488355328)))"
  by (simp only: our_share_f64_def total_in_range_f64_def
      others_position_f64_def our_in_range_position_f64_def our_total_position_f64_def
      annual_fees_f64_def daily_fees_f64_def fee_tier_f64_eq
      our_total_position_percent_f64_eq truediv_f64_pos
      Let_def if_True if_False sum.case
      mul_eval_106 sub_eval_2 div_eval_107 mul_eval_108 sub_eval_109 mul_eval_110
      add_eval_111 mul_eval_28 mul_eval_29 pos_eval_112 mul_eval_24 mul_eval_30
      div_eval_31 pos_eval_114 div_eval_116 mul_eval_117)

lemma yield_f64_at_m100_1e308_m10_share:
  "our_share_f64 (Finite (- 100)) (Finite (- 10)) = Inr (Finite 0)"
  by (simp only: our_share_f64_def total_in_range_f64_def
      others_position_f64_def our_in_range_position_f64_def our_total_position_f64_def
      annual_fees_f64_def daily_fees_f64_def fee_tier_f64_eq
      our_total_position_percent_f64_eq truediv_f64_pos
      Let_def if_True if_False sum.case
      mul_eval_106 sub_eval_2 div_eval_107 mul_eval_108 sub_eval_109 mul_eval_110
      add_eval_111 mul_eval_28 mul_eval_29 pos_eval_112 mul_eval_24 mul_eval_30
      div_eval_31 pos_eval_114 div_eval_116 mul_eval_117)

lemma lit_1e308:
  "rnd (10 ^ 308) = (Finite 100000000000000001097906362944045541740492309677311846336810682903157585404911491537163328978494688899061249669721172515611590283743140088328307009198146046031271664502933027185697489699588559043338384466165001178426897626212945177628091195786707458122783970171784415105291802893207873272974885715430223118336)"
  by (rule rnd_FiniteI [where k = "1023" and n = "5010420900022432"])
     (simp_all add: round_half_even_def)

lemma lit_5em324:
  "rnd (5 / 10 ^ 324) = (Finite (1 / 202402253307310618352495346718917307049556649764142118356901358027430339567995346891960383701437124495187077864316811911389808737385793476867013399940738509921517424276566361364466907742093216341239767678472745068562007483424692698618103355649159556340810056512358769552333414615230502532186327508646006263307707741093494784))"
  by (rule rnd_FiniteI [where k = "- 1074" and n = "1"])
     (simp_all add: round_half_even_def)









section \<open>The fields of the result\<close>

text \<open>
  Claim C1, as the specification states it, fails: the returned dictionary has no key
  \<open>others_position\<close>; the returned \<open>our_share\<close> is the ratio times 100 (line 33), so
  \<open>our_annual_yield\<close> is not \<open>annual_fees\<close> times the returned \<open>our_share\<close>; and the
  guard of line 21 is \<open>total_in_range > 0\<close>, so a negative \<open>total_in_range\<close> gives 0
  and not the ratio. At the first input below the ratio is \<open>17/25\<close> and the returned
  \<open>our_share\<close> is 68; at the second \<open>total_in_range = -100\<close> and the returned
  \<open>our_share\<close> is 0.
\<close>

theorem returned_fields_counterexample:
  "returned (calculate_yield 147000 100000 100) ''others_position'' = None \<and>
   returned (calculate_yield 147000 100000 100) ''our_share'' = Some 68 \<and>
   our_in_range_position 147000 100 / total_in_range 147000 100 = 17 / 25 \<and>
   (68::real) \<noteq> 17 / 25 \<and>
   returned (calculate_yield 147000 100000 100) ''annual_fees'' = Some 219000 \<and>
   returned (calculate_yield 147000 100000 100) ''our_annual_yield'' = Some 148920 \<and>
   (148920::real) \<noteq> 219000 * 68 \<and>
   total_in_range (-100) 100 = -100 \<and> (-100::real) \<noteq> 0 \<and>
   returned (calculate_yield (-100) 100 100) ''our_share'' = Some 0 \<and>
   our_in_range_position (-100) 100 / total_in_range (-100) 100 = 17 / 25 \<and>
   (0::real) \<noteq> 17 / 25"
  by (simp add: returned_others_position returned_our_share returned_annual_fees
      returned_our_annual_yield total_in_range_eq our_in_range_position_eq annual_fees_eq)

text \<open>
  Claim C1, amended. For every real input triple the call returns a dictionary with
  exactly the ten keys \<open>our_total_position\<close>, \<open>our_in_range_position\<close>,
  \<open>our_out_of_range_position\<close>, \<open>total_in_range\<close>, \<open>daily_fees\<close>, \<open>annual_fees\<close>,
  \<open>our_share\<close>, \<open>our_annual_yield\<close>, \<open>our_monthly_yield\<close> and \<open>our_apr\<close>, each equal
  to the formula of the data-model table over the returned fields, with three
  differences: \<open>others_position = total_pool_size * (1 - 0.68)\<close> is a local that enters
  \<open>total_in_range\<close> and is not a key of the result; the returned \<open>our_share\<close> is the
  percentage \<open>our_in_range_position / total_in_range * 100\<close>, and 0 when
  \<open>total_in_range \<le> 0\<close>; and \<open>our_annual_yield = annual_fees * (our_share / 100)\<close>.
  The returned \<open>our_apr\<close> is \<open>our_annual_yield / our_in_range_position * 100\<close>, and 0
  when \<open>our_in_range_position \<le> 0\<close>.
\<close>

theorem returned_fields_follow_table:
  "\<exists>a i out tot d f s y m r.
     calculate_yield t v p =
       Inr [(''our_total_position'', a), (''our_in_range_position'', i),
            (''our_out_of_range_position'', out), (''total_in_range'', tot),
            (''daily_fees'', d), (''annual_fees'', f), (''our_share'', s),
            (''our_annual_yield'', y), (''our_monthly_yield'', m), (''our_apr'', r)] \<and>
     a = t * 0.68 \<and>
     i = a * (p / 100) \<and>
     out = a - i \<and>
     others_position t = t * (1 - 0.68) \<and>
     tot = others_position t + i \<and>
     d = v * 0.006 \<and>
     f = d * 365 \<and>
     s = (if tot > 0 then i / tot else 0) * 100 \<and>
     y = f * (s / 100) \<and>
     m = y / 12 \<and>
     r = (if i > 0 then y / i * 100 else 0) \<and>
     returned (calculate_yield t v p) ''others_position'' = None"
  unfolding calculate_yield_returns
  apply (intro exI conjI)
                apply (rule refl)
               apply (simp add: our_total_position_def our_total_position_percent_def)
              apply (simp add: our_in_range_position_def)
             apply (rule refl)
            apply (simp add: others_position_def our_total_position_percent_def)
           apply (simp add: total_in_range_def)
          apply (simp add: daily_fees_def fee_tier_def)
         apply (simp add: annual_fees_def)
        apply simp
       apply simp
      apply (rule refl)
     apply (rule refl)
  apply (simp add: returned_def)
  done

section \<open>No error, and what the guards substitute\<close>

text \<open>
  Claim C2, as the specification states it, fails where a divisor is negative: the
  guards of lines 21 and 24 substitute 0 there, and the quotient is not 0. At
  \<open>(100, 100, -10)\<close> the divisor \<open>our_in_range_position\<close> is \<open>-34/5\<close>, the quotient
  times 100 is \<open>18250/21\<close>, and the returned \<open>our_apr\<close> is 0. At \<open>(-100, 100, 100)\<close>
  the divisor \<open>total_in_range\<close> is \<open>-100\<close>, the quotient is \<open>17/25\<close>, and the
  returned \<open>our_share\<close> is 0.
\<close>

theorem guards_exactly_zero_counterexample:
  "our_in_range_position 100 (-10) = - 34 / 5 \<and> (- 34 / 5 :: real) \<noteq> 0 \<and>
   returned (calculate_yield 100 100 (-10)) ''our_annual_yield'' = Some (- 1241 / 21) \<and>
   returned (calculate_yield 100 100 (-10)) ''our_apr'' = Some 0 \<and>
   (- 1241 / 21) / (- 34 / 5) * 100 = (18250 / 21 :: real) \<and>
   (0::real) \<noteq> 18250 / 21 \<and>
   total_in_range (-100) 100 = -100 \<and> (-100::real) \<noteq> 0 \<and>
   our_in_range_position (-100) 100 / total_in_range (-100) 100 = 17 / 25 \<and>
   returned (calculate_yield (-100) 100 100) ''our_share'' = Some 0 \<and>
   (0::real) \<noteq> 17 / 25"
  by (simp add: returned_our_share returned_our_apr returned_our_annual_yield
      total_in_range_eq our_in_range_position_eq annual_fees_eq)

text \<open>
  Claim C2, amended. For every real input triple the call raises no error and returns
  all ten fields. The returned \<open>our_share\<close> is 0 when its divisor \<open>total_in_range\<close> is
  zero or negative, and otherwise the quotient \<open>our_in_range_position / total_in_range\<close>
  (times 100); the returned \<open>our_apr\<close> is 0 when its divisor \<open>our_in_range_position\<close>
  is zero or negative, and otherwise the quotient
  \<open>our_annual_yield / our_in_range_position\<close> times 100. The other fields are computed
  by their formulas in either case: \<open>our_annual_yield\<close> is \<open>annual_fees\<close> times the
  share (0 or the quotient), and \<open>our_monthly_yield\<close> is a twelfth of it. On floats as
  well, infinities and NaN included, the call raises no error and returns the ten
  fields: each division is behind a guard that makes its divisor positive.
\<close>

theorem no_error_and_guards:
  "(\<exists>d y.
     calculate_yield t v p = Inr d \<and>
     map fst d = [''our_total_position'', ''our_in_range_position'',
                  ''our_out_of_range_position'', ''total_in_range'', ''daily_fees'',
                  ''annual_fees'', ''our_share'', ''our_annual_yield'',
                  ''our_monthly_yield'', ''our_apr''] \<and>
     map_of d ''our_share'' =
       Some (if total_in_range t p \<le> 0 then 0
             else our_in_range_position t p / total_in_range t p * 100) \<and>
     map_of d ''our_annual_yield'' = Some y \<and>
     y = annual_fees v *
           (if total_in_range t p \<le> 0 then 0
            else our_in_range_position t p / total_in_range t p) \<and>
     map_of d ''our_apr'' =
       Some (if our_in_range_position t p \<le> 0 then 0
             else y / our_in_range_position t p * 100) \<and>
     map_of d ''our_total_position'' = Some (our_total_position t) \<and>
     map_of d ''our_in_range_position'' = Some (our_in_range_position t p) \<and>
     map_of d ''our_out_of_range_position'' =
       Some (our_total_position t - our_in_range_position t p) \<and>
     map_of d ''total_in_range'' = Some (total_in_range t p) \<and>
     map_of d ''daily_fees'' = Some (daily_fees v) \<and>
     map_of d ''annual_fees'' = Some (annual_fees v) \<and>
     map_of d ''our_monthly_yield'' = Some (y / 12)) \<and>
   (\<exists>d.
     calculate_yield_f64 T V P = Inr d \<and>
     map fst d = [''our_total_position'', ''our_in_range_position'',
                  ''our_out_of_range_position'', ''total_in_range'', ''daily_fees'',
                  ''annual_fees'', ''our_share'', ''our_annual_yield'',
                  ''our_monthly_yield'', ''our_apr''])"
proof (rule conjI)
  show "\<exists>d y.
     calculate_yield t v p = Inr d \<and>
     map fst d = [''our_total_position'', ''our_in_range_position'',
                  ''our_out_of_range_position'', ''total_in_range'', ''daily_fees'',
                  ''annual_fees'', ''our_share'', ''our_annual_yield'',
                  ''our_monthly_yield'', ''our_apr''] \<and>
     map_of d ''our_share'' =
       Some (if total_in_range t p \<le> 0 then 0
             else our_in_range_position t p / total_in_range t p * 100) \<and>
     map_of d ''our_annual_yield'' = Some y \<and>
     y = annual_fees v *
           (if total_in_range t p \<le> 0 then 0
            else our_in_range_position t p / total_in_range t p) \<and>
     map_of d ''our_apr'' =
       Some (if our_in_range_position t p \<le> 0 then 0
             else y / our_in_range_position t p * 100) \<and>
     map_of d ''our_total_position'' = Some (our_total_position t) \<and>
     map_of d ''our_in_range_position'' = Some (our_in_range_position t p) \<and>
     map_of d ''our_out_of_range_position'' =
       Some (our_total_position t - our_in_range_position t p) \<and>
     map_of d ''total_in_range'' = Some (total_in_range t p) \<and>
     map_of d ''daily_fees'' = Some (daily_fees v) \<and>
     map_of d ''annual_fees'' = Some (annual_fees v) \<and>
     map_of d ''our_monthly_yield'' = Some (y / 12)"
    unfolding calculate_yield_returns by (simp add: not_less)
  show "\<exists>d.
     calculate_yield_f64 T V P = Inr d \<and>
     map fst d = [''our_total_position'', ''our_in_range_position'',
                  ''our_out_of_range_position'', ''total_in_range'', ''daily_fees'',
                  ''annual_fees'', ''our_share'', ''our_annual_yield'',
                  ''our_monthly_yield'', ''our_apr'']"
    unfolding calculate_yield_f64_returns by simp
qed

section \<open>The end-to-end example\<close>

text \<open>
  Claim C3, as the specification states it, fails in its last three figures. At
  \<open>(147000, 100000, 100)\<close> the returned \<open>our_annual_yield\<close> is \<open>219000 * 0.68 = 148920\<close>,
  not about 148988.57; \<open>our_monthly_yield\<close> is 12410, not about 12415.71; and
  \<open>our_apr\<close> is \<open>7300/49\<close>, about 148.98, not about 149.03. None is within a cent of
  the figure of the specification.
\<close>

theorem end_to_end_counterexample:
  "returned (calculate_yield 147000 100000 100) ''our_annual_yield'' = Some 148920 \<and>
   \<not> \<bar>148920 - 148988.57\<bar> \<le> (0.01::real) \<and>
   returned (calculate_yield 147000 100000 100) ''our_monthly_yield'' = Some 12410 \<and>
   \<not> \<bar>12410 - 12415.71\<bar> \<le> (0.01::real) \<and>
   returned (calculate_yield 147000 100000 100) ''our_apr'' = Some (7300 / 49) \<and>
   \<not> \<bar>7300 / 49 - 149.03\<bar> \<le> (0.01::real)"
  by (simp add: returned_our_apr returned_our_monthly_yield returned_our_annual_yield
      total_in_range_eq our_in_range_position_eq annual_fees_eq)

text \<open>
  Claim C3, amended. At \<open>total_pool_size = 147000\<close>, \<open>daily_volume = 100000\<close>,
  \<open>percent_in_range = 100\<close> the call returns \<open>our_total_position = 99960\<close>,
  \<open>our_in_range_position = 99960\<close>, \<open>our_out_of_range_position = 0\<close>,
  \<open>total_in_range = 147000\<close>, \<open>daily_fees = 600\<close>, \<open>annual_fees = 219000\<close>,
  \<open>our_share = 68\<close> (the percentage of \<open>99960/147000\<close>), \<open>our_annual_yield = 148920\<close>,
  \<open>our_monthly_yield = 12410\<close> and \<open>our_apr = 7300/49\<close>, which is 148.98 to two
  decimals; the local \<open>others_position\<close> is 47040.
\<close>

theorem end_to_end_example:
  "calculate_yield 147000 100000 100 =
     Inr [(''our_total_position'', 99960), (''our_in_range_position'', 99960),
          (''our_out_of_range_position'', 0), (''total_in_range'', 147000),
          (''daily_fees'', 600), (''annual_fees'', 219000), (''our_share'', 68),
          (''our_annual_yield'', 148920), (''our_monthly_yield'', 12410),
          (''our_apr'', 7300 / 49)] \<and>
   others_position 147000 = 47040 \<and>
   (68::real) = 99960 / 147000 * 100 \<and>
   \<bar>7300 / 49 - 148.98\<bar> \<le> (0.005::real)"
  unfolding calculate_yield_returns
  by (simp add: total_in_range_eq our_in_range_position_eq annual_fees_eq
      our_total_position_eq others_position_eq daily_fees_def fee_tier_def)

section \<open>The yield grows with the share in range\<close>




section \<open>The yield grows with the volume\<close>

text \<open>
  Claim C5, as the specification states it, fails on floats. At pool 147000.0 and
  100 percent the in-range position is positive, and the volumes 0.0 and 5e-324
  both return the yield 0.0: line 18 rounds \<^verbatim>\<open>5e-324 * 0.006\<close> to 0. With a negative
  pool size the yield does not even stay in order: at pool -100.0 and -10 percent the
  in-range position is positive and \<open>total_in_range\<close> is negative, so the share is 0,
  and the volume 0.0 returns 0.0 while 1e308 returns NaN (line 19 overflows to
  infinity, and line 22 multiplies it by 0).
\<close>

theorem yield_increasing_in_volume_counterexample:
  "(less_f64 (Finite 0) (our_in_range_position_f64 (Finite 147000) (Finite 100)) \<and>
    less_f64 (Finite 0) (rnd (5 / 10 ^ 324)) \<and>
    returned_f64 (calculate_yield_f64 (Finite 147000) (Finite 0) (Finite 100))
      ''our_annual_yield'' = Some (Finite 0) \<and>
    returned_f64 (calculate_yield_f64 (Finite 147000) (rnd (5 / 10 ^ 324)) (Finite 100))
      ''our_annual_yield'' = Some (Finite 0) \<and>
    \<not> less_f64 (Finite 0) (Finite 0)) \<and>
   (less_f64 (Finite 0) (our_in_range_position_f64 (Finite (- 100)) (Finite (- 10))) \<and>
    less_f64 (Finite 0) (rnd (10 ^ 308)) \<and>
    returned_f64 (calculate_yield_f64 (Finite (- 100)) (Finite 0) (Finite (- 10)))
      ''our_annual_yield'' = Some (Finite 0) \<and>
    returned_f64 (calculate_yield_f64 (Finite (- 100)) (rnd (10 ^ 308)) (Finite (- 10)))
      ''our_annual_yield'' = Some NaN \<and>
    \<not> le_f64 (Finite 0) NaN)"
  unfolding lit_5em324 lit_1e308
    yield_f64_at_147000_0_100 yield_f64_at_147000_5em324_100
    yield_f64_at_147000_0_100_in_range
    yield_f64_at_m100_0_m10 yield_f64_at_m100_1e308_m10
    yield_f64_at_m100_0_m10_in_range
  by (simp add: returned_f64_def)

text \<open>
  Claim C5, amended. On floats: for any fixed \<open>total_pool_size\<close> and
  \<open>percent_in_range\<close> for which the share of line 21 is a positive finite number (this
  needs \<open>our_in_range_position > 0\<close> and \<open>total_in_range > 0\<close>), if
  \<open>daily_volume1 < daily_volume2\<close> then \<open>our_annual_yield\<close> at \<open>daily_volume1\<close> is
  less than or equal to \<open>our_annual_yield\<close> at \<open>daily_volume2\<close>. The increase is
  strict in exact arithmetic only; on floats the two yields can be equal, by rounding,
  by underflow to 0 or by overflow to infinity.
\<close>

theorem yield_monotone_in_volume_f64:
  assumes "less_f64 V1 V2"
    and "our_share_f64 T P = Inr (Finite s)" and "0 < s"
  shows "\<exists>y1 y2.
     returned_f64 (calculate_yield_f64 T V1 P) ''our_annual_yield'' = Some y1 \<and>
     returned_f64 (calculate_yield_f64 T V2 P) ''our_annual_yield'' = Some y2 \<and>
     le_f64 y1 y2"
proof -
  have "le_f64 (annual_fees_f64 V1) (annual_fees_f64 V2)"
    using assms(1) by (intro annual_fees_f64_mono less_f64_imp_le)
  then have "le_f64 (mul_f64 (annual_fees_f64 V1) (Finite s))
                    (mul_f64 (annual_fees_f64 V2) (Finite s))"
    using assms(3) by (rule mul_f64_mono_pos)
  then show ?thesis
    unfolding calculate_yield_f64_returns
    by (simp add: returned_f64_def assms(2))
qed

theorem yield_monotone_in_volume_f64_witness:
  "less_f64 (Finite 50000) (Finite 100000) \<and>
   our_share_f64 (Finite 147000) (Finite 100)
     = Inr (Finite (6124895493223875 / 9007199254740992)) \<and>
   (0::real) < 6124895493223875 / 9007199254740992 \<and>
   returned_f64 (calculate_yield_f64 (Finite 147000) (Finite 50000) (Finite 100))
     ''our_annual_yield'' = Some (Finite 74460) \<and>
   returned_f64 (calculate_yield_f64 (Finite 147000) (Finite 100000) (Finite 100))
     ''our_annual_yield'' = Some (Finite 148920) \<and>
   le_f64 (Finite 74460) (Finite 148920)"
  using yield_monotone_in_volume_f64 [of "Finite 50000" "Finite 100000" "Finite 147000"
      "Finite 100" "6124895493223875 / 9007199254740992"]
  unfolding yield_f64_at_147000_50000_100 yield_f64_at_147000_100000_100
    yield_f64_at_147000_100000_100_share
  by (simp add: returned_f64_def)

section \<open>Partition of the positions\<close>

text \<open>
  Claim C6. For every input with \<open>total_pool_size \<ge> 0\<close>, the returned
  \<open>our_total_position\<close> and the local \<open>others_position\<close> add up to
  \<open>total_pool_size\<close>; and for every input, the returned \<open>our_in_range_position\<close> and
  \<open>our_out_of_range_position\<close> add up to the returned \<open>our_total_position\<close>. Both are
  exact equalities over the reals. (\<open>others_position\<close> is a local of the function and
  not a key of the result, so it is read from its definition.)
\<close>

theorem positions_partition:
  "\<exists>a i out.
     returned (calculate_yield t v p) ''our_total_position'' = Some a \<and>
     returned (calculate_yield t v p) ''our_in_range_position'' = Some i \<and>
     returned (calculate_yield t v p) ''our_out_of_range_position'' = Some out \<and>
     (0 \<le> t \<longrightarrow> a + others_position t = t) \<and>
     i + out = a"
proof -
  have "our_total_position t + others_position t = t"
    by (simp add: our_total_position_eq others_position_eq)
  then show ?thesis
    by (simp add: returned_our_total_position returned_our_in_range_position
        returned_our_out_of_range_position)
qed

theorem positions_partition_witness:
  "(0::real) \<le> 147000 \<and>
   our_total_position 147000 + others_position 147000 = 147000 \<and>
   returned (calculate_yield 147000 100000 25) ''our_total_position'' = Some 99960 \<and>
   returned (calculate_yield 147000 100000 25) ''our_in_range_position'' = Some 24990 \<and>
   returned (calculate_yield 147000 100000 25) ''our_out_of_range_position'' = Some 74970"
  using positions_partition [of 147000 100000 25]
  by (simp add: returned_our_total_position returned_our_in_range_position
      returned_our_out_of_range_position our_total_position_eq others_position_eq
      our_in_range_position_eq)

section \<open>Nothing in range\<close>

text \<open>
  Claim C7, as the specification states it, fails on floats: at pool 147000.0,
  volume 1e308 and 0 percent, line 19 overflows (\<open>annual_fees\<close> is infinite) and line
  22 multiplies the infinity by the share 0, so the returned \<open>our_annual_yield\<close> is
  NaN, not 0.
\<close>

theorem percent_zero_counterexample:
  "returned_f64 (calculate_yield_f64 (Finite 147000) (rnd (10 ^ 308)) (Finite 0))
     ''annual_fees'' = Some PInf \<and>
   returned_f64 (calculate_yield_f64 (Finite 147000) (rnd (10 ^ 308)) (Finite 0))
     ''our_annual_yield'' = Some NaN \<and>
   NaN \<noteq> Finite 0"
  unfolding lit_1e308 yield_f64_at_147000_1e308_0
  by (simp add: returned_f64_def)

text \<open>
  Claim C7, amended. On floats: for every finite \<open>total_pool_size\<close> and every
  \<open>daily_volume\<close>, a call with \<open>percent_in_range = 0\<close> returns
  \<open>our_in_range_position\<close>, \<open>our_share\<close> and \<open>our_apr\<close> equal to 0, and it returns
  \<open>our_annual_yield\<close> equal to 0 when \<open>annual_fees\<close> is finite (lines 18 and 19 do not
  overflow, as for every volume up to 8.2e307) and NaN when \<open>annual_fees\<close> is infinite
  or NaN.
\<close>

theorem percent_zero_f64:
  assumes "finite_f64 T"
  shows "returned_f64 (calculate_yield_f64 T V (Finite 0)) ''our_in_range_position''
           = Some (Finite 0) \<and>
         returned_f64 (calculate_yield_f64 T V (Finite 0)) ''our_share'' = Some (Finite 0) \<and>
         returned_f64 (calculate_yield_f64 T V (Finite 0)) ''our_apr'' = Some (Finite 0) \<and>
         returned_f64 (calculate_yield_f64 T V (Finite 0)) ''our_annual_yield''
           = Some (case annual_fees_f64 V of Finite a \<Rightarrow> Finite 0 | _ \<Rightarrow> NaN)"
proof -
  obtain t where T: "T = Finite t" and t: "is_double t"
    using assms by (cases T) simp_all
  show ?thesis
    unfolding T calculate_yield_f64_returns
    by (simp add: returned_f64_def our_in_range_position_f64_zero [OF t]
        our_share_f64_zero [OF t] mul_f64_zero rnd_zero)
qed

theorem percent_zero_f64_witness:
  "finite_f64 (Finite 147000) \<and>
   annual_fees_f64 (Finite 100000) = Finite 219000 \<and>
   returned_f64 (calculate_yield_f64 (Finite 147000) (Finite 100000) (Finite 0))
     ''our_in_range_position'' = Some (Finite 0) \<and>
   returned_f64 (calculate_yield_f64 (Finite 147000) (Finite 100000) (Finite 0))
     ''our_share'' = Some (Finite 0) \<and>
   returned_f64 (calculate_yield_f64 (Finite 147000) (Finite 100000) (Finite 0))
     ''our_apr'' = Some (Finite 0) \<and>
   returned_f64 (calculate_yield_f64 (Finite 147000) (Finite 100000) (Finite 0))
     ''our_annual_yield'' = Some (Finite 0)"
  using percent_zero_f64 [of "Finite 147000" "Finite 100000"]
  by (simp add: is_double_147000 yield_f64_at_147000_100000_0_annual_fees)

section \<open>Signs and bounds on the domain\<close>

text \<open>
  Claim C8, as the specification states it, fails on floats: the input pool 0.0,
  volume 1e308, 50 percent is in the stated domain, \<open>annual_fees\<close> overflows to
  infinity, the share is 0, and the returned \<open>our_annual_yield\<close> and
  \<open>our_monthly_yield\<close> are NaN, for which \<^verbatim>\<open>>= 0\<close> is false.
\<close>

theorem fields_nonnegative_counterexample:
  "le_f64 (Finite 0) (Finite 0) \<and> le_f64 (Finite 0) (rnd (10 ^ 308)) \<and>
   le_f64 (Finite 0) (Finite 50) \<and> le_f64 (Finite 50) (Finite 100) \<and>
   returned_f64 (calculate_yield_f64 (Finite 0) (rnd (10 ^ 308)) (Finite 50))
     ''our_annual_yield'' = Some NaN \<and>
   returned_f64 (calculate_yield_f64 (Finite 0) (rnd (10 ^ 308)) (Finite 50))
     ''our_monthly_yield'' = Some NaN \<and>
   \<not> le_f64 (Finite 0) NaN"
  unfolding lit_1e308 yield_f64_at_0_1e308_50
  by (simp add: returned_f64_def)

text \<open>
  The bounds behind the amended claim, with the three inputs taken apart.
\<close>

lemma fields_nonnegative_core:
  assumes T: "T = Finite t" "is_double t" "0 \<le> t"
    and V: "V = Finite v" "0 \<le> v"
    and P: "P = Finite p" "0 \<le> p" "p \<le> 100"
    and A: "annual_fees_f64 V = Finite f"
  shows "\<exists>d s.
     calculate_yield_f64 T V P = Inr d \<and>
     list_all (\<lambda>(k, x). le_f64 (Finite 0) x) d \<and>
     map_of d ''our_share'' = Some s \<and> le_f64 s (Finite 100) \<and>
     le_f64 (our_in_range_position_f64 T P) (total_in_range_f64 T P)"
proof -
  let ?c = "6124895493223875 / 9007199254740992 :: real"
  let ?c' = "2882303761517117 / 9007199254740992 :: real"
  have "0 \<le> t * ?c" and "t * ?c \<le> t" using T(3) by simp_all
  then obtain a where a: "rnd (t * ?c) = Finite a" "0 \<le> a" "a \<le> t" "is_double a"
    using T(2) by (rule rnd_between)
  then have otp: "our_total_position_f64 T = Finite a"
    by (simp add: our_total_position_f64_def our_total_position_percent_f64_eq T(1))
  have "0 \<le> p / 100" and "p / 100 \<le> 1" using P(2,3) by simp_all
  then obtain q where q: "rnd (p / 100) = Finite q" "0 \<le> q" "q \<le> 1"
    using is_double_1 by (rule rnd_between)
  have "0 \<le> a * q" and "a * q \<le> a"
    using a(2) q(2,3) by (simp_all add: mult_left_le)
  then obtain i where i: "rnd (a * q) = Finite i" "0 \<le> i" "i \<le> a" "is_double i"
    using a(4) by (rule rnd_between)
  then have oir: "our_in_range_position_f64 T P = Finite i"
    by (simp add: our_in_range_position_f64_def otp P(1) q(1))
  have "0 \<le> a + - i" and "a + - i \<le> a" using i(2,3) by simp_all
  then obtain u where u: "rnd (a + - i) = Finite u" "0 \<le> u"
    using a(4) by (rule rnd_between)
  then have oor: "sub_f64 (Finite a) (Finite i) = Finite u"
    by (simp add: sub_f64_def)
  have "0 \<le> t * ?c'" and "t * ?c' \<le> t" using T(3) by simp_all
  then obtain w where w: "rnd (t * ?c') = Finite w" "0 \<le> w"
    using T(2) by (rule rnd_between)
  then have others: "others_position_f64 T = Finite w"
    by (simp add: others_position_f64_def one_minus_percent_f64_eq T(1))
  have tir: "total_in_range_f64 T P = rnd (w + i)"
    by (simp add: total_in_range_f64_def others oir)
  have "le_f64 (rnd i) (rnd (w + i))" using w(2) by (intro rnd_mono) simp
  then have le: "le_f64 (Finite i) (total_in_range_f64 T P)"
    using rnd_double [OF i(4)] tir by simp
  have "\<exists>s. our_share_f64 T P = Inr (Finite s) \<and> 0 \<le> s \<and> s \<le> 1"
    using le
  proof (cases rule: le_f64_Finite_cases)
    case (fin r)
    show ?thesis
    proof (cases "0 < r")
      case True
      then have "0 \<le> i / r" and "i / r \<le> 1" using i(2) fin(2) by simp_all
      then obtain s where "rnd (i / r) = Finite s" "0 \<le> s" "s \<le> 1"
        using is_double_1 by (rule rnd_between)
      then show ?thesis using True by (simp add: our_share_f64_returns fin(1) oir)
    next
      case False
      then show ?thesis by (simp add: our_share_f64_returns fin(1))
    qed
  next
    case pinf
    then show ?thesis by (simp add: our_share_f64_returns oir)
  qed
  then obtain s where s: "our_share_f64 T P = Inr (Finite s)" "0 \<le> s" "s \<le> 1" by blast
  have "0 \<le> s * 100" and "s * 100 \<le> 100" using s(2,3) by simp_all
  then obtain h where h: "rnd (s * 100) = Finite h" "0 \<le> h" "h \<le> 100"
    using is_double_100 by (rule rnd_between)
  have daily: "le_f64 (Finite 0) (daily_fees_f64 V)"
    using V(2) by (simp add: daily_fees_f64_def fee_tier_f64_eq V(1) rnd_nonneg)
  have "le_f64 (Finite 0) (annual_fees_f64 V)"
    unfolding V(1) using V(2) by (rule annual_fees_f64_nonneg)
  then have f0: "0 \<le> f" using A by simp
  have fd: "is_double f" using A by (rule annual_fees_f64_is_double)
  have "0 \<le> f * s" and "f * s \<le> f"
    using f0 s(2,3) by (simp_all add: mult_left_le)
  then obtain y where y: "rnd (f * s) = Finite y" "0 \<le> y"
    using fd by (rule rnd_between)
  have monthly: "le_f64 (Finite 0) (rnd (y / 12))"
    using y(2) by (intro rnd_nonneg) simp
  have "le_f64 (Finite 0) (rnd (y / i))"
    using y(2) i(2) by (intro rnd_nonneg) simp
  then have apr: "le_f64 (Finite 0) (mul_f64 (rnd (y / i)) (Finite 100))"
    by (rule mul_f64_nonneg_pos) simp
  have tot: "le_f64 (Finite 0) (total_in_range_f64 T P)"
    unfolding tir using w(2) i(2) by (intro rnd_nonneg) simp
  show ?thesis
    unfolding calculate_yield_f64_returns
    using le tot daily monthly apr a(2) i(2) u(2) f0 y(2) h(2,3)
    by (simp add: otp oir oor s(1) A h(1) y(1))
qed

text \<open>
  Claim C8, amended. On floats: for every finite input in the stated domain
  (\<open>total_pool_size \<ge> 0\<close>, \<open>daily_volume \<ge> 0\<close>, \<open>percent_in_range\<close> in \<open>[0, 100]\<close>)
  whose \<open>annual_fees\<close> is finite (lines 18 and 19 do not overflow), the call returns
  a dictionary all of whose values are nonnegative (\<^verbatim>\<open>>= 0\<close> holds of each; positive
  infinity is possible for \<open>total_in_range\<close> and \<open>our_apr\<close>), the returned \<open>our_share\<close>
  is at most 100, and \<open>our_in_range_position \<le> total_in_range\<close>.
\<close>

theorem fields_nonnegative_f64:
  assumes "finite_f64 T" and "finite_f64 V" and "finite_f64 P"
    and "le_f64 (Finite 0) T" and "le_f64 (Finite 0) V"
    and "le_f64 (Finite 0) P" and "le_f64 P (Finite 100)"
    and "finite_f64 (annual_fees_f64 V)"
  shows "\<exists>d s.
     calculate_yield_f64 T V P = Inr d \<and>
     list_all (\<lambda>(k, x). le_f64 (Finite 0) x) d \<and>
     map_of d ''our_share'' = Some s \<and> le_f64 s (Finite 100) \<and>
     le_f64 (our_in_range_position_f64 T P) (total_in_range_f64 T P)"
proof -
  obtain t where T: "T = Finite t" "is_double t" "0 \<le> t"
    using assms(1,4) by (cases T) simp_all
  obtain v where V: "V = Finite v" "0 \<le> v"
    using assms(2,5) by (cases V) simp_all
  obtain p where P: "P = Finite p" "0 \<le> p" "p \<le> 100"
    using assms(3,6,7) by (cases P) simp_all
  obtain f where A: "annual_fees_f64 V = Finite f"
    using assms(8) by (cases "annual_fees_f64 V") simp_all
  from T V P A show ?thesis by (rule fields_nonnegative_core)
qed

theorem fields_nonnegative_f64_witness:
  "finite_f64 (Finite 147000) \<and> finite_f64 (Finite 100000) \<and> finite_f64 (Finite 50) \<and>
   le_f64 (Finite 0) (Finite 147000) \<and> le_f64 (Finite 0) (Finite 100000) \<and>
   le_f64 (Finite 0) (Finite 50) \<and> le_f64 (Finite 50) (Finite 100) \<and>
   annual_fees_f64 (Finite 100000) = Finite 219000 \<and>
   list_all (\<lambda>(k, x). le_f64 (Finite 0) x)
     (projr (calculate_yield_f64 (Finite 147000) (Finite 100000) (Finite 50))) \<and>
   returned_f64 (calculate_yield_f64 (Finite 147000) (Finite 100000) (Finite 50))
     ''our_share'' = Some (Finite (3625056518243297 / 70368744177664)) \<and>
   le_f64 (Finite (3625056518243297 / 70368744177664)) (Finite 100) \<and>
   our_in_range_position_f64 (Finite 147000) (Finite 50) = Finite 49980 \<and>
   total_in_range_f64 (Finite 147000) (Finite 50) = Finite 97020 \<and>
   le_f64 (Finite 49980) (Finite 97020)"
  using fields_nonnegative_f64 [of "Finite 147000" "Finite 100000" "Finite 50"]
  unfolding yield_f64_at_147000_100000_50 yield_f64_at_147000_100000_50_in_range
    yield_f64_at_147000_100000_50_total yield_f64_at_147000_100000_50_annual_fees
  by (simp add: returned_f64_def is_double_147000 is_double_100000 is_double_50)

section \<open>The guards of the two divisions\<close>

text \<open>
  Claim C9. The guards test strict positivity: the returned \<open>our_share\<close> is 0 whenever
  \<open>total_in_range \<le> 0\<close>, and the returned \<open>our_apr\<close> is 0 whenever
  \<open>our_in_range_position \<le> 0\<close>; a negative divisor gives 0, not a quotient.
\<close>

theorem guards_strictly_positive:
  "(total_in_range t p \<le> 0 \<longrightarrow> returned (calculate_yield t v p) ''our_share'' = Some 0) \<and>
   (our_in_range_position t p \<le> 0 \<longrightarrow> returned (calculate_yield t v p) ''our_apr'' = Some 0)"
  by (simp add: returned_our_share returned_our_apr)

text \<open>
  With a negative pool size both divisors are negative: \<open>total_in_range = -100\<close> and
  \<open>our_in_range_position = -68\<close>.
\<close>

theorem guards_strictly_positive_witness:
  "total_in_range (-100) 100 = -100 \<and> total_in_range (-100) 100 \<le> 0 \<and>
   returned (calculate_yield (-100) 100 100) ''our_share'' = Some 0 \<and>
   our_in_range_position (-100) 100 = -68 \<and> our_in_range_position (-100) 100 \<le> 0 \<and>
   returned (calculate_yield (-100) 100 100) ''our_apr'' = Some 0"
  using guards_strictly_positive [of "-100" 100 100]
  by (simp add: total_in_range_eq our_in_range_position_eq)

section \<open>The rate falls as more of the position is in range\<close>




end
